theory Spec2Isabelle
  imports Complex_Main
begin

section \<open>Values shared by all components of \<^verbatim>\<open>experiments/DINO_signal.py\<close>\<close>

text \<open>
  Numbers are real numbers: the arithmetic of the program is modelled exactly, rounding
  of the machine floats is not represented, and neither are the infinities and NaN that a
  tensor divided by zero holds: the theorems about values are stated for divisors that
  are not zero.  A two-dimensional tensor is the list of its
  rows, every row a list of equal width; a tensor without rows carries no width.
  Exceptions of Python and of the tensor library are values of type \<open>error\<close>.
\<close>

datatype error = IndexError | ZeroDivisionError | ValueError | RuntimeError | UnboundLocalError

type_synonym vec = "real list"
type_synonym tensor = "real list list"

text \<open>Indexing a sequence with a Python integer: a negative index counts from the end.\<close>

definition getitem :: "'a list \<Rightarrow> int \<Rightarrow> error + 'a" where
  "getitem xs i =
     (if 0 \<le> i \<and> i < int (length xs) then Inr (xs ! nat i)
      else if i < 0 \<and> - int (length xs) \<le> i then Inr (xs ! nat (int (length xs) + i))
      else Inl IndexError)"

text \<open>Mapping a fallible function over a list; the first failure is the result.\<close>

fun mapE :: "('a \<Rightarrow> error + 'b) \<Rightarrow> 'a list \<Rightarrow> error + 'b list" where
  "mapE f [] = Inr []"
| "mapE f (x # xs) =
     (case f x of Inl e \<Rightarrow> Inl e
      | Inr y \<Rightarrow> (case mapE f xs of Inl e \<Rightarrow> Inl e | Inr ys \<Rightarrow> Inr (y # ys)))"

text \<open>
  Elementwise binary operations of the tensor library broadcast: two axes are compatible
  when their sizes agree or one of them is 1; otherwise the operation raises.
\<close>

definition bcast :: "(real \<Rightarrow> real \<Rightarrow> real) \<Rightarrow> vec \<Rightarrow> vec \<Rightarrow> error + vec" where
  "bcast f x y =
     (if length x = length y then Inr (map2 f x y)
      else if length x = 1 then Inr (map (f (hd x)) y)
      else if length y = 1 then Inr (map (\<lambda>a. f a (hd y)) x)
      else Inl RuntimeError)"

definition bcast2 :: "(real \<Rightarrow> real \<Rightarrow> real) \<Rightarrow> tensor \<Rightarrow> tensor \<Rightarrow> error + tensor" where
  "bcast2 f s t =
     (if length s = length t then mapE (\<lambda>(x, y). bcast f x y) (zip s t)
      else if length s = 1 then mapE (\<lambda>y. bcast f (hd s) y) t
      else if length t = 1 then mapE (\<lambda>x. bcast f x (hd t)) s
      else Inl RuntimeError)"

text \<open>
  \<^verbatim>\<open>Tensor.chunk(chunks)\<close> along the first axis, as the tensor library defines it: the
  chunk size is the row count divided by \<open>chunks\<close>, rounded up; the tensor is split into
  pieces of that size, the last one possibly shorter, so fewer than \<open>chunks\<close> pieces may
  come back.  A tensor without rows gives \<open>chunks\<close> empty pieces.
\<close>

definition split_size :: "nat \<Rightarrow> 'a list \<Rightarrow> 'a list list" where
  "split_size s xs =
     map (\<lambda>i. take s (drop (i * s) xs)) [0 ..< max ((length xs + s - 1) div s) 1]"

definition chunk :: "int \<Rightarrow> 'a list \<Rightarrow> error + 'a list list" where
  "chunk chunks xs =
     (if chunks \<le> 0 then Inl RuntimeError
      else let s = (length xs + nat chunks - 1) div nat chunks
           in if s = 0 then Inr (replicate (nat chunks) [])
              else Inr (split_size s xs))"


section \<open>\<^verbatim>\<open>MultiCropWrapper\<close>\<close>

text \<open>
  A crop is a tensor of shape (batch, channels, length).  The rows of its batch axis are
  values of a type \<open>'s\<close>; the two other sizes are fields.  A backbone maps such a batch to
  feature rows of a type \<open>'f\<close> (one width for all of them), alone or as the first
  component of a tuple.
\<close>

record 's crop =
  channels :: nat
  last_dim :: nat
  batch :: "'s list"

datatype 's input = One "'s crop" | Many "'s crop list"

datatype ('f, 'x) backbone_out = Tensor "'f list" | Tuple "'f list" 'x

text \<open>\<^verbatim>\<open>torch.unique_consecutive(..., return_counts=True)[1]\<close>: the lengths of the runs.\<close>

fun run_counts :: "nat \<Rightarrow> nat \<Rightarrow> nat list \<Rightarrow> nat list" where
  "run_counts x c [] = [c]"
| "run_counts x c (y # ys) =
     (if y = x then run_counts x (Suc c) ys else c # run_counts y 1 ys)"

definition unique_consecutive_counts :: "nat list \<Rightarrow> nat list" where
  "unique_consecutive_counts xs = (case xs of [] \<Rightarrow> [] | x # ys \<Rightarrow> run_counts x 1 ys)"

fun cumsum_from :: "nat \<Rightarrow> nat list \<Rightarrow> nat list" where
  "cumsum_from acc [] = []"
| "cumsum_from acc (c # cs) = (acc + c) # cumsum_from (acc + c) cs"

definition cumsum :: "nat list \<Rightarrow> nat list" where
  "cumsum cs = cumsum_from 0 cs"

text \<open>
  \<^verbatim>\<open>torch.cat\<close> of crops along the batch axis: the list must not be empty and the other
  two sizes must agree.
\<close>

definition cat_crops :: "'s crop list \<Rightarrow> error + 's crop" where
  "cat_crops cs =
     (case cs of [] \<Rightarrow> Inl RuntimeError
      | c # _ \<Rightarrow>
          if list_all (\<lambda>d. channels d = channels c \<and> last_dim d = last_dim c) cs
          then Inr \<lparr>channels = channels c, last_dim = last_dim c,
                    batch = concat (map batch cs)\<rparr>
          else Inl RuntimeError)"

definition slice :: "'a list \<Rightarrow> nat \<Rightarrow> nat \<Rightarrow> 'a list" where
  "slice xs start_idx end_idx = take (end_idx - start_idx) (drop start_idx xs)"

definition primary :: "('f, 'x) backbone_out \<Rightarrow> 'f list" where
  "primary out = (case out of Tensor t \<Rightarrow> t | Tuple t _ \<Rightarrow> t)"

text \<open>The loop over \<^verbatim>\<open>idx_crops\<close>, with \<^verbatim>\<open>start_idx\<close> and \<^verbatim>\<open>output\<close> as its state.\<close>

fun crop_loop ::
  "('s crop \<Rightarrow> ('f, 'x) backbone_out) \<Rightarrow> 's crop list \<Rightarrow> nat \<Rightarrow> 'f list \<Rightarrow> nat list
     \<Rightarrow> error + 'f list" where
  "crop_loop backbone x start_idx output [] = Inr output"
| "crop_loop backbone x start_idx output (end_idx # rest) =
     (case cat_crops (slice x start_idx end_idx) of
        Inl e \<Rightarrow> Inl e
      | Inr merged \<Rightarrow>
          crop_loop backbone x end_idx (output @ primary (backbone merged)) rest)"

definition MultiCropWrapper_forward ::
  "('s crop \<Rightarrow> ('f, 'x) backbone_out) \<Rightarrow> ('f list \<Rightarrow> 'o) \<Rightarrow> 's input \<Rightarrow> error + 'o" where
  "MultiCropWrapper_forward backbone head inp =
     (let x = (case inp of One c \<Rightarrow> [c] | Many cs \<Rightarrow> cs);
          idx_crops = cumsum (unique_consecutive_counts (map last_dim x))
      in if x = [] then Inl IndexError
         else (case crop_loop backbone x 0 [] idx_crops of
                 Inl e \<Rightarrow> Inl e
               | Inr output \<Rightarrow> Inr (head output)))"










section \<open>Truncated-normal initializer\<close>

text \<open>
  \<^verbatim>\<open>math.erf\<close> is the error function, here given by its power series
  \<open>erf x = 2 / sqrt pi * (\<Sum>k. (-1)^k * x^(2k+1) / (k! * (2k+1)))\<close>;
  \<^verbatim>\<open>Tensor.erfinv_\<close> is its inverse.
\<close>

definition erf_coeff :: "nat \<Rightarrow> real" where
  "erf_coeff n =
     (if odd n then 2 / sqrt pi * ((- 1) ^ ((n - 1) div 2) / (fact ((n - 1) div 2) * real n))
      else 0)"

definition erf :: "real \<Rightarrow> real" where
  "erf x = (\<Sum>n. erf_coeff n * x ^ n)"

text \<open>The series without its zero terms: \<open>erf_term x k\<close> is the term of \<open>x ^ (2 * k + 1)\<close>.\<close>

definition erf_term :: "real \<Rightarrow> nat \<Rightarrow> real" where
  "erf_term x k = 2 / sqrt pi * ((- 1) ^ k / (fact k * real (2 * k + 1))) * x ^ (2 * k + 1)"

definition erfinv :: "real \<Rightarrow> real" where
  "erfinv y = the_inv erf y"

definition norm_cdf :: "real \<Rightarrow> real" where
  "norm_cdf x = (1 + erf (x / sqrt 2)) / 2"

text \<open>
  \<^verbatim>\<open>Tensor.uniform_(from, to)\<close> overwrites every element with a draw from the interval
  from \<open>from\<close> to \<open>to\<close>, and raises when \<open>from > to\<close>.  The random source is a stream
  \<open>rng\<close> of unit draws, \<open>0 \<le> rng i < 1\<close>; element \<open>i\<close> becomes
  \<open>from + (to - from) * rng i\<close>.  Only the size of the tensor matters, so a weight
  tensor is the flat list of its elements.
\<close>

definition uniform :: "(nat \<Rightarrow> real) \<Rightarrow> vec \<Rightarrow> real \<Rightarrow> real \<Rightarrow> error + vec" where
  "uniform rng tensor from to =
     (if from \<le> to then Inr (map (\<lambda>i. from + (to - from) * rng i) [0 ..< length tensor])
      else Inl RuntimeError)"

text \<open>\<^verbatim>\<open>Tensor.clamp_(min=a, max=b)\<close> is \<open>min (max x a) b\<close>.\<close>

definition clamp :: "real \<Rightarrow> real \<Rightarrow> real \<Rightarrow> real" where
  "clamp a b x = min (max x a) b"

definition trunc_normal_warning :: string where
  "trunc_normal_warning =
     ''mean is more than 2 std from [a, b] in nn.init.trunc_normal_. '' @
     ''The distribution of values may be incorrect.''"

text \<open>
  The result is the list of warnings issued and either the exception raised or the
  tensor returned.  Dividing by \<open>std\<close> is a division of Python floats, which raises for
  a zero divisor.
\<close>

definition no_grad_trunc_normal ::
  "(nat \<Rightarrow> real) \<Rightarrow> vec \<Rightarrow> real \<Rightarrow> real \<Rightarrow> real \<Rightarrow> real \<Rightarrow> string list \<times> (error + vec)" where
  "no_grad_trunc_normal rng tensor mean std a b =
     (let warned = (if mean < a - 2 * std \<or> mean > b + 2 * std
                    then [trunc_normal_warning] else [])
      in if std = 0 then (warned, Inl ZeroDivisionError)
         else
           let l = norm_cdf ((a - mean) / std);
               u = norm_cdf ((b - mean) / std)
           in (case uniform rng tensor (2 * l - 1) (2 * u - 1) of
                 Inl e \<Rightarrow> (warned, Inl e)
               | Inr t1 \<Rightarrow>
                   let t2 = map erfinv t1;
                       t3 = map (\<lambda>v. v * (std * sqrt 2)) t2;
                       t4 = map (\<lambda>v. v + mean) t3;
                       t5 = map (clamp a b) t4
                   in (warned, Inr t5)))"

definition trunc_normal ::
  "(nat \<Rightarrow> real) \<Rightarrow> vec \<Rightarrow> real \<Rightarrow> real \<Rightarrow> real \<Rightarrow> real \<Rightarrow> string list \<times> (error + vec)" where
  "trunc_normal rng tensor mean std a b = no_grad_trunc_normal rng tensor mean std a b"


section \<open>\<^verbatim>\<open>DINOHead\<close>\<close>

text \<open>
  The constructor assembles library modules; its result is described by the modules and
  their sizes.  \<open>Linear i o b\<close> is \<^verbatim>\<open>nn.Linear(i, o, bias=b)\<close>.
\<close>

datatype layer = Linear nat nat bool | BatchNorm1d nat | GELU

datatype mlp = Single layer | Sequential "layer list"

record DINOHead =
  mlp :: mlp
  last_layer :: layer
  weight_g_fill :: real
  weight_g_requires_grad :: bool

text \<open>The loop \<^verbatim>\<open>for _ in range(nlayers - 2)\<close>, with \<^verbatim>\<open>layers\<close> as its state.\<close>

fun hidden_loop :: "bool \<Rightarrow> nat \<Rightarrow> nat \<Rightarrow> layer list \<Rightarrow> layer list" where
  "hidden_loop use_bn hidden_dim 0 layers = layers"
| "hidden_loop use_bn hidden_dim (Suc k) layers =
     hidden_loop use_bn hidden_dim k
       ((layers @ [Linear hidden_dim hidden_dim True])
          @ (if use_bn then [BatchNorm1d hidden_dim] else [])
          @ [GELU])"

definition DINOHead_init ::
  "nat \<Rightarrow> nat \<Rightarrow> bool \<Rightarrow> bool \<Rightarrow> int \<Rightarrow> nat \<Rightarrow> nat \<Rightarrow> DINOHead" where
  "DINOHead_init in_dim out_dim use_bn norm_last_layer nlayers0 hidden_dim bottleneck_dim =
     (let nlayers = max nlayers0 1;
          m = (if nlayers = 1 then Single (Linear in_dim bottleneck_dim True)
               else
                 let layers = [Linear in_dim hidden_dim True];
                     layers = layers @ (if use_bn then [BatchNorm1d hidden_dim] else []);
                     layers = layers @ [GELU];
                     layers = hidden_loop use_bn hidden_dim (nat (nlayers - 2)) layers;
                     layers = layers @ [Linear hidden_dim bottleneck_dim True]
                 in Sequential layers)
      in \<lparr>mlp = m,
          last_layer = Linear bottleneck_dim out_dim False,
          weight_g_fill = 1,
          weight_g_requires_grad = (\<not> norm_last_layer)\<rparr>)"

text \<open>
  \<^verbatim>\<open>_init_weights\<close> on one module: a linear module, given by its flat weight and its
  optional bias, gets truncated-normal weights with \<^verbatim>\<open>std=.02\<close> and the defaults
  \<^verbatim>\<open>mean=0., a=-2., b=2.\<close>, and a zero bias; any other module is left alone.
\<close>

datatype module = LinearModule vec "vec option" | OtherModule

definition init_weights :: "(nat \<Rightarrow> real) \<Rightarrow> module \<Rightarrow> string list \<times> (error + module)" where
  "init_weights rng m =
     (case m of
        LinearModule weight bias \<Rightarrow>
          (case trunc_normal rng weight 0 (2 / 100) (- 2) 2 of
             (w, Inl e) \<Rightarrow> (w, Inl e)
           | (w, Inr weight') \<Rightarrow>
               (w, Inr (LinearModule weight' (map_option (map (\<lambda>_. 0)) bias))))
      | OtherModule \<Rightarrow> ([], Inr OtherModule))"

text \<open>
  A unit draw for which the weight drawn is two standard deviations times \<open>sqrt 2\<close>:
  the draw that places the uniform sample at \<open>erf 2\<close>.
\<close>

definition example_draw :: real where
  "example_draw =
     (erf 2 - (2 * norm_cdf (- 100) - 1)) / ((2 * norm_cdf 100 - 1) - (2 * norm_cdf (- 100) - 1))"

definition example_rng :: "nat \<Rightarrow> real" where
  "example_rng i = example_draw"

text \<open>
  \<^verbatim>\<open>F.normalize(x, dim=-1, p=2)\<close> divides every row by the larger of its Euclidean norm
  and \<open>eps = 1e-12\<close>.
\<close>

definition l2_norm :: "vec \<Rightarrow> real" where
  "l2_norm x = sqrt (sum_list (map (\<lambda>v. v\<^sup>2) x))"

definition normalize :: "vec \<Rightarrow> vec" where
  "normalize x = map (\<lambda>v. v / max (l2_norm x) (1 / 10 ^ 12)) x"

text \<open>\<^verbatim>\<open>nn.Linear\<close> applied to a batch: every row \<open>x\<close> becomes \<open>W x + b\<close>.\<close>

definition linear_apply :: "tensor \<Rightarrow> vec option \<Rightarrow> tensor \<Rightarrow> tensor" where
  "linear_apply W b x =
     map (\<lambda>row. map (\<lambda>j. sum_list (map2 (*) (W ! j) row)
                            + (case b of None \<Rightarrow> 0 | Some bias \<Rightarrow> bias ! j))
                     [0 ..< length W]) x"

text \<open>
  The forward pass, with the functions computed by \<^verbatim>\<open>self.mlp\<close> and
  \<^verbatim>\<open>self.last_layer\<close> as parameters; \<open>DINOHead_bottleneck\<close> is the value of \<^verbatim>\<open>x\<close>
  after the normalization and before the last layer.
\<close>

definition DINOHead_bottleneck :: "(tensor \<Rightarrow> tensor) \<Rightarrow> tensor \<Rightarrow> tensor" where
  "DINOHead_bottleneck mlp_fn x = (let x = mlp_fn x; x = map normalize x in x)"

definition DINOHead_forward ::
  "(tensor \<Rightarrow> tensor) \<Rightarrow> (tensor \<Rightarrow> tensor) \<Rightarrow> tensor \<Rightarrow> tensor" where
  "DINOHead_forward mlp_fn last_layer_fn x =
     (let x = mlp_fn x; x = map normalize x; x = last_layer_fn x in x)"


section \<open>\<^verbatim>\<open>DINOLoss\<close>\<close>

definition bindE :: "error + 'a \<Rightarrow> ('a \<Rightarrow> error + 'b) \<Rightarrow> error + 'b" where
  "bindE m f = (case m of Inl e \<Rightarrow> Inl e | Inr v \<Rightarrow> f v)"

record DINOLoss =
  student_temp :: real
  center_momentum :: real
  ncrops :: int
  center :: vec
  teacher_temp_schedule :: "real list"

text \<open>
  \<^verbatim>\<open>np.linspace(start, stop, num)\<close> and \<^verbatim>\<open>np.ones(n)\<close>; both raise for a negative
  count.
\<close>

definition linspace :: "real \<Rightarrow> real \<Rightarrow> int \<Rightarrow> error + real list" where
  "linspace start stop num =
     (if num < 0 then Inl ValueError
      else if num = 1 then Inr [start]
      else Inr (map (\<lambda>i. start + real i * ((stop - start) / real (nat num - 1)))
                    [0 ..< nat num]))"

definition ones :: "int \<Rightarrow> error + real list" where
  "ones n = (if n < 0 then Inl ValueError else Inr (replicate (nat n) 1))"

definition DINOLoss_init ::
  "nat \<Rightarrow> int \<Rightarrow> real \<Rightarrow> real \<Rightarrow> int \<Rightarrow> int \<Rightarrow> real \<Rightarrow> real \<Rightarrow> error + DINOLoss" where
  "DINOLoss_init out_dim ncrops0 warmup_teacher_temp teacher_temp
       warmup_teacher_temp_epochs nepochs student_temp0 center_momentum0 =
     bindE (linspace warmup_teacher_temp teacher_temp warmup_teacher_temp_epochs) (\<lambda>warm.
     bindE (ones (nepochs - warmup_teacher_temp_epochs)) (\<lambda>flat.
       Inr \<lparr>student_temp = student_temp0,
            center_momentum = center_momentum0,
            ncrops = ncrops0,
            center = replicate out_dim 0,
            teacher_temp_schedule = warm @ map (\<lambda>v. v * teacher_temp) flat\<rparr>))"

text \<open>Softmax and log-softmax along the feature axis, and the mean of a vector.\<close>

definition softmax :: "vec \<Rightarrow> vec" where
  "softmax x = map (\<lambda>v. exp v / sum_list (map exp x)) x"

definition log_softmax :: "vec \<Rightarrow> vec" where
  "log_softmax x = map (\<lambda>v. v - ln (sum_list (map exp x))) x"

definition mean :: "vec \<Rightarrow> real" where
  "mean x = sum_list x / real (length x)"

text \<open>
  \<^verbatim>\<open>torch.sum(teacher_output, dim=0, keepdim=True)\<close>: the sum of every column.  The
  collective \<^verbatim>\<open>dist.all_reduce\<close> replaces the tensor by its sum over all processes;
  \<open>peers\<close> are the tensors the other processes contribute, so the world size is
  \<open>length peers + 1\<close>.
\<close>

definition column_sum :: "tensor \<Rightarrow> vec" where
  "column_sum t =
     (case t of [] \<Rightarrow> []
      | r # _ \<Rightarrow> map (\<lambda>j. sum_list (map (\<lambda>row. row ! j) t)) [0 ..< length r])"

definition all_reduce :: "vec \<Rightarrow> vec list \<Rightarrow> vec" where
  "all_reduce v peers = foldl (map2 (+)) v peers"

definition get_world_size :: "vec list \<Rightarrow> nat" where
  "get_world_size peers = length peers + 1"

definition update_center :: "DINOLoss \<Rightarrow> vec list \<Rightarrow> tensor \<Rightarrow> error + DINOLoss" where
  "update_center self peers teacher_output =
     (let batch_center = column_sum teacher_output;
          batch_center = all_reduce batch_center peers;
          batch_center = map (\<lambda>v. v / real (length teacher_output * get_world_size peers))
                             batch_center;
          batch_center = map (\<lambda>v. v / real (length teacher_output)) batch_center
      in bindE (bcast (+) (map (\<lambda>c. c * center_momentum self) (center self))
                          (map (\<lambda>v. v * (1 - center_momentum self)) batch_center))
           (\<lambda>c. Inr (self\<lparr>center := c\<rparr>)))"

text \<open>One term of the loss: the mean over the rows of \<open>sum (- q * log_softmax s)\<close>.\<close>

definition pair_loss :: "tensor \<Rightarrow> tensor \<Rightarrow> error + real" where
  "pair_loss q s =
     bindE (bcast2 (*) (map (map uminus) q) (map log_softmax s))
       (\<lambda>prod. Inr (mean (map sum_list prod)))"

text \<open>
  The two nested loops, with \<^verbatim>\<open>total_loss\<close> and \<^verbatim>\<open>n_loss_terms\<close> as their state.
\<close>

fun inner_loop ::
  "tensor list \<Rightarrow> nat \<Rightarrow> tensor \<Rightarrow> nat list \<Rightarrow> real \<times> nat \<Rightarrow> error + real \<times> nat" where
  "inner_loop student_out iq q [] acc = Inr acc"
| "inner_loop student_out iq q (v # vs) (total_loss, n_loss_terms) =
     (if v = iq then inner_loop student_out iq q vs (total_loss, n_loss_terms)
      else bindE (pair_loss q (student_out ! v))
             (\<lambda>loss. inner_loop student_out iq q vs (total_loss + loss, n_loss_terms + 1)))"

fun outer_loop ::
  "tensor list \<Rightarrow> (nat \<times> tensor) list \<Rightarrow> real \<times> nat \<Rightarrow> error + real \<times> nat" where
  "outer_loop student_out [] acc = Inr acc"
| "outer_loop student_out ((iq, q) # rest) acc =
     bindE (inner_loop student_out iq q [0 ..< length student_out] acc)
       (outer_loop student_out rest)"

definition loss_terms ::
  "DINOLoss \<Rightarrow> tensor \<Rightarrow> tensor \<Rightarrow> int \<Rightarrow> error + real \<times> nat" where
  "loss_terms self student_output teacher_output epoch =
     bindE (chunk (ncrops self) (map (map (\<lambda>v. v / student_temp self)) student_output))
       (\<lambda>student_out.
     bindE (getitem (teacher_temp_schedule self) epoch) (\<lambda>temp.
     bindE (bcast2 (-) teacher_output [center self]) (\<lambda>centered.
     bindE (chunk 2 (map softmax (map (map (\<lambda>v. v / temp)) centered))) (\<lambda>teacher_out.
       outer_loop student_out (zip [0 ..< length teacher_out] teacher_out) (0, 0)))))"

definition DINOLoss_forward ::
  "DINOLoss \<Rightarrow> vec list \<Rightarrow> tensor \<Rightarrow> tensor \<Rightarrow> int \<Rightarrow> error + real \<times> DINOLoss" where
  "DINOLoss_forward self peers student_output teacher_output epoch =
     bindE (loss_terms self student_output teacher_output epoch)
       (\<lambda>(total_loss, n_loss_terms).
          if n_loss_terms = 0 then Inl ZeroDivisionError
          else
            bindE (update_center self peers teacher_output) (\<lambda>self'.
              Inr (total_loss / real n_loss_terms, self')))"


text \<open>
  The loss and the center as the specification words them.  The student's output is
  divided by the student temperature and split "into N per-crop chunks of batch rows
  each"; the teacher's output has the center subtracted, is divided by the temperature
  of the epoch and goes through softmax; a pair contributes "the mean over rows of
  \<open>- \<Sum>features teacher_prob * log_softmax (student_chunk)\<close>"; the pairs are those of a
  teacher chunk \<open>iq\<close> of the two and a student chunk \<open>v\<close> of the \<open>N\<close> with \<open>v \<noteq> iq\<close>;
  the new center is the old one times the momentum plus \<open>1 - momentum\<close> times the sum of
  the teacher's rows over all processes, scaled by \<open>1 / (rows\<^sup>2 * world size)\<close>.
\<close>

definition nth_chunk :: "nat \<Rightarrow> nat \<Rightarrow> 'a list \<Rightarrow> 'a list" where
  "nth_chunk rows i xs = take rows (drop (i * rows) xs)"

definition student_logits :: "DINOLoss \<Rightarrow> tensor \<Rightarrow> tensor" where
  "student_logits self student_output = map (map (\<lambda>v. v / student_temp self)) student_output"

definition teacher_probs :: "DINOLoss \<Rightarrow> tensor \<Rightarrow> int \<Rightarrow> tensor" where
  "teacher_probs self teacher_output epoch =
     map (\<lambda>row. softmax (map (\<lambda>v. v / (teacher_temp_schedule self ! nat epoch))
                          (map2 (-) row (center self))))
         teacher_output"

definition cross_entropy :: "tensor \<Rightarrow> tensor \<Rightarrow> real" where
  "cross_entropy q s =
     mean (map (\<lambda>(q_row, s_row). sum_list (map2 (\<lambda>p l. - p * l) q_row (log_softmax s_row)))
               (zip q s))"

definition view_pairs :: "nat \<Rightarrow> (nat \<times> nat) list" where
  "view_pairs N = [(iq, v). iq \<leftarrow> [0 ..< 2], v \<leftarrow> [0 ..< N], v \<noteq> iq]"

definition spec_center :: "DINOLoss \<Rightarrow> vec list \<Rightarrow> tensor \<Rightarrow> vec" where
  "spec_center self peers teacher_output =
     map (\<lambda>j. center self ! j * center_momentum self
              + (sum_list (map (\<lambda>row. row ! j) teacher_output)
                   + sum_list (map (\<lambda>p. p ! j) peers))
                / ((real (length teacher_output))\<^sup>2 * real (length peers + 1))
                * (1 - center_momentum self))
         [0 ..< length (center self)]"


section \<open>The training loop \<^verbatim>\<open>run\<close>\<close>

text \<open>
  What \<^verbatim>\<open>run\<close> takes from outside this file is an environment:
  \<^item> \<open>loader_len\<close> is \<^verbatim>\<open>len(train_dataloader)\<close>, and \<open>loader e b\<close> the crops of batch
    \<open>b\<close> of epoch \<open>e\<close>;
  \<^item> \<open>signal_model\<close>, \<open>head_mlp\<close> and \<open>head_last_layer\<close> are the functions a network
    computes from its parameters (a list of flat tensors, in the order of
    \<^verbatim>\<open>parameters()\<close>);
  \<^item> \<open>initial_student\<close> are the student's parameters after
    \<^verbatim>\<open>student.apply(weights_init_xavier)\<close>;
  \<^item> \<open>gradient_step\<close> stands for \<^verbatim>\<open>optimizer.zero_grad()\<close>, \<^verbatim>\<open>loss.backward()\<close>,
    \<^verbatim>\<open>cancel_gradients_last_layer\<close> and \<^verbatim>\<open>optimizer.step()\<close>: the optimizer was built
    over \<^verbatim>\<open>student.parameters()\<close>, so the step maps the student's parameters and the
    optimizer's state to new ones;
  \<^item> \<open>backbone_state_dict\<close> selects the backbone's entries of a network's parameters.
\<close>

record ('s, 'x, 'o) env =
  loader_len :: nat
  loader :: "nat \<Rightarrow> nat \<Rightarrow> 's crop list"
  signal_model :: "vec list \<Rightarrow> 's crop \<Rightarrow> (vec, 'x) backbone_out"
  head_mlp :: "vec list \<Rightarrow> tensor \<Rightarrow> tensor"
  head_last_layer :: "vec list \<Rightarrow> tensor \<Rightarrow> tensor"
  initial_student :: "vec list"
  cosine_scheduler :: "real \<Rightarrow> real \<Rightarrow> nat \<Rightarrow> nat \<Rightarrow> nat option \<Rightarrow> real list"
  optimizer_init :: 'o
  gradient_step ::
    "'o \<Rightarrow> real \<Rightarrow> real \<Rightarrow> nat \<Rightarrow> 's crop list \<Rightarrow> vec list \<Rightarrow> vec list \<Rightarrow> DINOLoss
       \<Rightarrow> vec list \<times> 'o"
  backbone_state_dict :: "vec list \<Rightarrow> vec list"

text \<open>
  Modelled from the spec: \<^verbatim>\<open>cosine_scheduler\<close> of \<^verbatim>\<open>utils/tools.py\<close> is not part of
  the sources.  The spec says of its result that "the schedule length equals epochs
  \<times> steps_per_epoch"; its third and fourth arguments are the epochs and the steps per
  epoch.
\<close>

definition schedule_length_law :: "('s, 'x, 'o) env \<Rightarrow> bool" where
  "schedule_length_law env \<longleftrightarrow>
     (\<forall>base final epochs niter warmup.
        length (cosine_scheduler env base final epochs niter warmup) = epochs * niter)"

record 'o state =
  student :: "vec list"
  teacher :: "vec list"
  optimizer :: 'o
  dino_loss :: DINOLoss
  lowest_train_loss :: real
  train_loss :: real
  saved :: "(string \<times> vec list) list"

text \<open>The constants of \<^verbatim>\<open>run\<close>.\<close>

definition batch_size :: nat where "batch_size = 196"
definition learning_rate :: real where "learning_rate = 5 / 10 ^ 4"
definition min_learing_rate :: real where "min_learing_rate = 1 / 10 ^ 6"
definition no_epoches :: nat where "no_epoches = 301"
definition out_dim :: nat where "out_dim = 65536"
definition local_crops_number :: int where "local_crops_number = 8"
definition warmup_epochs :: nat where "warmup_epochs = 10"
definition warmup_teacher_temp :: real where "warmup_teacher_temp = 4 / 100"
definition teacher_temp :: real where "teacher_temp = 4 / 100"
definition warmup_teacher_temp_epochs :: int where "warmup_teacher_temp_epochs = 30"
definition weight_decay :: real where "weight_decay = 4 / 100"
definition weight_decay_end :: real where "weight_decay_end = 4 / 10"
definition world_size :: nat where "world_size = 1"

text \<open>
  The momentum update of one teacher parameter, in place:
  \<^verbatim>\<open>param_k.data.mul_(m).add_((1 - m) * param_q.detach().data)\<close>.  The student's tensor
  must have the teacher's size, or one element.
\<close>

definition momentum_param :: "real \<Rightarrow> vec \<Rightarrow> vec \<Rightarrow> error + vec" where
  "momentum_param m param_q param_k =
     (if length param_q = length param_k
      then Inr (map2 (\<lambda>k q. k * m + (1 - m) * q) param_k param_q)
      else if length param_q = 1
      then Inr (map (\<lambda>k. k * m + (1 - m) * hd param_q) param_k)
      else Inl RuntimeError)"

text \<open>
  The loop over \<^verbatim>\<open>zip(student.parameters(), teacher.parameters())\<close>: teacher
  parameters beyond the shorter list are not touched.
\<close>

definition momentum_update :: "real \<Rightarrow> vec list \<Rightarrow> vec list \<Rightarrow> error + vec list" where
  "momentum_update m student_params teacher_params =
     bindE (mapE (\<lambda>(param_q, param_k). momentum_param m param_q param_k)
                 (zip student_params teacher_params))
       (\<lambda>updated. Inr (updated @ drop (length student_params) teacher_params))"

definition network ::
  "('s, 'x, 'o) env \<Rightarrow> vec list \<Rightarrow> 's input \<Rightarrow> error + tensor" where
  "network env params =
     MultiCropWrapper_forward (signal_model env params)
       (DINOHead_forward (head_mlp env params) (head_last_layer env params))"

text \<open>One iteration of the loop over the batches (lines 318 to 342).\<close>

definition train_step ::
  "('s, 'x, 'o) env \<Rightarrow> real list \<Rightarrow> real list \<Rightarrow> nat \<Rightarrow> nat \<Rightarrow> 'o state \<Rightarrow> error + 'o state" where
  "train_step env lr_schedule wd_schedule epoch batch_idx st =
     (let it = loader_len env * epoch + batch_idx
      in bindE (getitem lr_schedule (int it)) (\<lambda>lr.
         bindE (getitem wd_schedule (int it)) (\<lambda>wd.
         let data = loader env epoch batch_idx
         in bindE (network env (teacher st) (Many (take 2 data))) (\<lambda>teacher_output.
            bindE (network env (student st) (Many data)) (\<lambda>student_output.
            bindE (DINOLoss_forward (dino_loss st) [] student_output teacher_output (int epoch))
              (\<lambda>(loss, dino_loss').
            let (student', optimizer') =
                  gradient_step env (optimizer st) lr wd epoch data (student st) (teacher st)
                    (dino_loss st);
                m = 996 / 1000
            in bindE (momentum_update m student' (teacher st)) (\<lambda>teacher'.
                 Inr (st\<lparr>student := student', teacher := teacher', optimizer := optimizer',
                         dino_loss := dino_loss', train_loss := train_loss st + loss\<rparr>))))))))"

fun batch_loop ::
  "('s, 'x, 'o) env \<Rightarrow> real list \<Rightarrow> real list \<Rightarrow> nat \<Rightarrow> nat list \<Rightarrow> 'o state \<Rightarrow> error + 'o state"
  where
  "batch_loop env lr_schedule wd_schedule epoch [] st = Inr st"
| "batch_loop env lr_schedule wd_schedule epoch (batch_idx # rest) st =
     bindE (train_step env lr_schedule wd_schedule epoch batch_idx st)
       (batch_loop env lr_schedule wd_schedule epoch rest)"

text \<open>
  The end of an epoch (lines 344 to 349), given the mean loss of the epoch: the two
  snapshots are written when the mean is below the lowest one so far.
\<close>

definition save_best :: "('s, 'x, 'o) env \<Rightarrow> real \<Rightarrow> 'o state \<Rightarrow> 'o state" where
  "save_best env whole_train_loss st =
     (if whole_train_loss < lowest_train_loss st
      then st\<lparr>lowest_train_loss := whole_train_loss,
              saved := saved st @
                [(''./checkpoints/DINO_signal_student.pth'', backbone_state_dict env (student st)),
                 (''./checkpoints/DINO_signal_teacher.pth'', backbone_state_dict env (teacher st))]\<rparr>
      else st)"

text \<open>
  One epoch.  After the loop \<^verbatim>\<open>batch_idx\<close> is the index of the last batch; with an
  empty loader it was never bound.
\<close>

definition run_epoch ::
  "('s, 'x, 'o) env \<Rightarrow> real list \<Rightarrow> real list \<Rightarrow> nat \<Rightarrow> 'o state \<Rightarrow> error + 'o state" where
  "run_epoch env lr_schedule wd_schedule epoch st =
     bindE (batch_loop env lr_schedule wd_schedule epoch [0 ..< loader_len env]
              (st\<lparr>train_loss := 0\<rparr>))
       (\<lambda>st'. if loader_len env = 0 then Inl UnboundLocalError
              else
                let batch_idx = loader_len env - 1;
                    whole_train_loss = train_loss st' / real (batch_idx + 1)
                in Inr (save_best env whole_train_loss st'))"

fun epoch_loop ::
  "('s, 'x, 'o) env \<Rightarrow> real list \<Rightarrow> real list \<Rightarrow> nat list \<Rightarrow> 'o state \<Rightarrow> error + 'o state" where
  "epoch_loop env lr_schedule wd_schedule [] st = Inr st"
| "epoch_loop env lr_schedule wd_schedule (epoch # rest) st =
     bindE (run_epoch env lr_schedule wd_schedule epoch st)
       (epoch_loop env lr_schedule wd_schedule rest)"

text \<open>
  The state when the loop over the epochs starts: the teacher has loaded the student's
  state, and \<^verbatim>\<open>lowest_train_loss = 10\<close>.  The \<^verbatim>\<open>optimizer.step()\<close> before the loop
  finds no gradient and changes nothing.
\<close>

definition initial_state :: "('s, 'x, 'o) env \<Rightarrow> DINOLoss \<Rightarrow> 'o state" where
  "initial_state env loss =
     \<lparr>student = initial_student env,
      teacher = initial_student env,
      optimizer = optimizer_init env,
      dino_loss = loss,
      lowest_train_loss = 10,
      train_loss = 0,
      saved = []\<rparr>"

definition run :: "('s, 'x, 'o) env \<Rightarrow> error + 'o state" where
  "run env =
     bindE (DINOLoss_init out_dim (local_crops_number + 2) warmup_teacher_temp teacher_temp
              warmup_teacher_temp_epochs (int no_epoches) (1 / 10) (9 / 10))
       (\<lambda>loss.
          let lr_schedule =
                cosine_scheduler env (learning_rate * real (batch_size * world_size) / 256)
                  min_learing_rate no_epoches (loader_len env) (Some warmup_epochs);
              wd_schedule =
                cosine_scheduler env weight_decay weight_decay_end no_epoches (loader_len env)
                  None
          in epoch_loop env lr_schedule wd_schedule [1 ..< no_epoches + 1]
               (initial_state env loss))"

text \<open>
  The ends of consecutive epochs: \<open>(l, sp, tp)\<close> stands for an epoch that ends with the
  mean loss \<open>l\<close>, student parameters \<open>sp\<close> and teacher parameters \<open>tp\<close>.
\<close>

fun epoch_ends ::
  "('s, 'x, 'o) env \<Rightarrow> (real \<times> vec list \<times> vec list) list \<Rightarrow> 'o state \<Rightarrow> 'o state" where
  "epoch_ends env [] st = st"
| "epoch_ends env ((l, sp, tp) # rest) st =
     epoch_ends env rest (save_best env l (st\<lparr>student := sp, teacher := tp\<rparr>))"

text \<open>A small environment and loss state to run the definitions on.\<close>

definition example_env :: "(real, unit, unit) env" where
  "example_env =
     \<lparr>loader_len = 1,
      loader = (\<lambda>epoch batch_idx.
        [\<lparr>channels = 12, last_dim = 250, batch = [1]\<rparr>, \<lparr>channels = 12, last_dim = 250, batch = [2]\<rparr>]),
      signal_model = (\<lambda>params c. Tensor (map (\<lambda>r. [r]) (batch c))),
      head_mlp = (\<lambda>params x. x),
      head_last_layer = (\<lambda>params x. x),
      initial_student = [[1, 2], [3]],
      cosine_scheduler = (\<lambda>base final epochs niter warmup. replicate (epochs * niter) base),
      optimizer_init = (),
      gradient_step = (\<lambda>opt lr wd epoch data sp tp loss. (map (map (\<lambda>v. v - lr)) sp, opt)),
      backbone_state_dict = (\<lambda>params. take 1 params)\<rparr>"

definition example_loss :: DINOLoss where
  "example_loss =
     \<lparr>student_temp = 1 / 10, center_momentum = 9 / 10, ncrops = 2, center = [0],
      teacher_temp_schedule = [4 / 100, 4 / 100]\<rparr>"


section \<open>Properties of the projection head\<close>

text \<open>
  C10.  For every requested layer count \<open>nlayers \<le> 1\<close>, zero and negative values
  included, the constructor returns the same head as for \<open>nlayers = 1\<close>: its MLP is the
  single linear map from \<open>in_dim\<close> to \<open>bottleneck_dim\<close>, with no hidden layer.
\<close>

theorem DINOHead_init_nlayers_clamped:
  assumes "nlayers \<le> 1"
  shows "DINOHead_init i_dim o_dim bn nll nlayers h_dim b_dim
           = DINOHead_init i_dim o_dim bn nll 1 h_dim b_dim
         \<and> mlp (DINOHead_init i_dim o_dim bn nll nlayers h_dim
                  b_dim)
           = Single (Linear i_dim b_dim True)"
proof -
  from assms have "max nlayers 1 = 1" by simp
  then show ?thesis by (simp add: DINOHead_init_def)
qed

theorem DINOHead_init_nlayers_clamped_witness:
  "(- 3 :: int) \<le> 1
   \<and> DINOHead_init 512 65536 False True (- 3) 512 128
       = DINOHead_init 512 65536 False True 1 512 128
   \<and> mlp (DINOHead_init 512 65536 False True (- 3) 512 128) = Single (Linear 512 128 True)"
proof -
  have h: "(- 3 :: int) \<le> 1" by simp
  from DINOHead_init_nlayers_clamped [OF h, of 512 65536 False True 512 128] h
  show ?thesis by blast
qed


subsection \<open>The bottleneck\<close>

lemma sum_list_sq_div:
  "sum_list (map (\<lambda>v. v\<^sup>2) (map (\<lambda>v. v / c) x)) = sum_list (map (\<lambda>v. v\<^sup>2) x) / c\<^sup>2"
  for c :: real
  by (induction x) (simp_all add: power_divide add_divide_distrib)

lemma l2_norm_scale: "0 < c \<Longrightarrow> l2_norm (map (\<lambda>v. v / c) x) = l2_norm x / c"
proof -
  assume c: "0 < c"
  have "l2_norm (map (\<lambda>v. v / c) x) = sqrt (sum_list (map (\<lambda>v. v\<^sup>2) x) / c\<^sup>2)"
    unfolding l2_norm_def by (simp only: sum_list_sq_div)
  also have "\<dots> = l2_norm x / c"
    using c by (simp add: l2_norm_def real_sqrt_divide)
  finally show ?thesis .
qed

lemma l2_norm_normalize:
  "l2_norm (normalize x) = l2_norm x / max (l2_norm x) (1 / 10 ^ 12)"
proof -
  have "0 < max (l2_norm x) (1 / 10 ^ 12)" by (simp add: max_def)
  then show ?thesis unfolding normalize_def by (rule l2_norm_scale)
qed

text \<open>
  C7, as the code has it.  Row \<open>i\<close> of the bottleneck (after the MLP and the
  normalization, before the last layer) has Euclidean norm 1 when the norm of row \<open>i\<close>
  of the MLP's output is at least \<open>10\<^sup>-\<^sup>1\<^sup>2\<close>; a row of smaller norm is divided
  by \<open>10\<^sup>-\<^sup>1\<^sup>2\<close> instead and has a norm below 1, an all-zero row stays all-zero.
\<close>

theorem bottleneck_norm:
  assumes "i < length (mlp_fn x)"
  shows "l2_norm (DINOHead_bottleneck mlp_fn x ! i)
         = (if 1 / 10 ^ 12 \<le> l2_norm (mlp_fn x ! i) then 1
            else l2_norm (mlp_fn x ! i) * 10 ^ 12)"
proof -
  have "DINOHead_bottleneck mlp_fn x ! i = normalize (mlp_fn x ! i)"
    using assms by (simp add: DINOHead_bottleneck_def)
  then show ?thesis
    by (auto simp: l2_norm_normalize max_def)
qed

lemma example_linear: "linear_apply [[1, 0], [0, 1]] (Some [0, 0]) [[1, 0]] = [[1, 0]]"
  by (simp add: linear_apply_def upt_rec [of 0] upt_rec [of 1])

theorem bottleneck_norm_witness:
  "(0 :: nat) < length (linear_apply [[1, 0], [0, 1]] (Some [0, 0]) [[1, 0]])
   \<and> 1 / 10 ^ 12 \<le> l2_norm (linear_apply [[1, 0], [0, 1]] (Some [0, 0]) [[1, 0]] ! 0)
   \<and> l2_norm (DINOHead_bottleneck (linear_apply [[1, 0], [0, 1]] (Some [0, 0])) [[1, 0]] ! 0)
       = 1"
proof -
  have h: "(0 :: nat) < length (linear_apply [[1, 0], [0, 1]] (Some [0, 0]) [[1, 0]])"
    by (simp add: example_linear)
  have n: "1 / 10 ^ 12 \<le> l2_norm (linear_apply [[1, 0], [0, 1]] (Some [0, 0]) [[1, 0]] ! 0)"
    by (simp add: example_linear l2_norm_def)
  from bottleneck_norm [of 0 "linear_apply [[1, 0], [0, 1]] (Some [0, 0])" "[[1, 0]]", OF h] n h
  show ?thesis by (simp only: if_True simp_thms)
qed

text \<open>
  The claim as the spec words it, "for any input including an all-zero MLP output", fails:
  a head with one linear layer and the zero bias of \<^verbatim>\<open>_init_weights\<close> maps the zero
  embedding to the zero vector, and the bottleneck is the zero vector, of norm 0.
\<close>

theorem bottleneck_zero_row:
  "DINOHead_bottleneck
     (linear_apply [[1 / 100, - 2 / 100, 3 / 100], [2 / 100, 0, - 1 / 100]] (Some [0, 0]))
     [[0, 0, 0]] = [[0, 0]]
   \<and> l2_norm [0, 0] = 0"
  by (simp add: DINOHead_bottleneck_def linear_apply_def normalize_def l2_norm_def
        upt_rec [of 0] upt_rec [of 1])

lemma DINOHead_forward_bottleneck:
  "DINOHead_forward mlp_fn last_layer_fn x = last_layer_fn (DINOHead_bottleneck mlp_fn x)"
  by (simp add: DINOHead_forward_def DINOHead_bottleneck_def)


section \<open>Facts about the error plumbing and the example environment\<close>

lemma bindE_simps [simp]:
  "bindE (Inl e) f = Inl e" "bindE (Inr v) f = f v"
  by (simp_all add: bindE_def)

lemma bindE_Inr_iff:
  "bindE m f = Inr y \<longleftrightarrow> (\<exists>v. m = Inr v \<and> f v = Inr y)"
  by (cases m) simp_all

lemma mapE_Inr_length: "mapE f xs = Inr ys \<Longrightarrow> length ys = length xs"
  by (induction xs arbitrary: ys) (auto split: sum.splits)

lemma mapE_Inr_nth:
  "mapE f xs = Inr ys \<Longrightarrow> i < length xs \<Longrightarrow> f (xs ! i) = Inr (ys ! i)"
proof (induction xs arbitrary: ys i)
  case Nil
  then show ?case by simp
next
  case (Cons x xs)
  then show ?case by (cases i) (auto split: sum.splits)
qed

lemma mapE_all_Inr:
  "(\<And>x. x \<in> set xs \<Longrightarrow> f x = Inr (g x)) \<Longrightarrow> mapE f xs = Inr (map g xs)"
  by (induction xs) auto

lemma getitem_beyond: "int (length xs) \<le> i \<Longrightarrow> getitem xs i = Inl IndexError"
  by (simp add: getitem_def)

lemma example_env_simps:
  "loader_len example_env = 1"
  "loader example_env e b =
     [\<lparr>channels = 12, last_dim = 250, batch = [1]\<rparr>, \<lparr>channels = 12, last_dim = 250, batch = [2]\<rparr>]"
  "initial_student example_env = [[1, 2], [3]]"
  "optimizer_init example_env = ()"
  "gradient_step example_env opt lr wd e data sp tp dl = (map (map (\<lambda>v. v - lr)) sp, opt)"
  "backbone_state_dict example_env ps = take 1 ps"
  "cosine_scheduler example_env base final epochs niter warmup = replicate (epochs * niter) base"
  by (simp_all add: example_env_def)

lemma example_env_law: "schedule_length_law example_env"
  by (simp add: schedule_length_law_def example_env_simps)


lemma example_forward:
  "DINOLoss_forward example_loss [] [[1], [1]] [[1], [1]] 1
     = Inr (0, example_loss\<lparr>center := [1 / 20]\<rparr>)"
  by (simp add: DINOLoss_forward_def loss_terms_def example_loss_def chunk_def split_size_def
        getitem_def bcast2_def bcast_def softmax_def pair_loss_def log_softmax_def mean_def
        update_center_def column_sum_def all_reduce_def get_world_size_def
        upt_rec [of 0] upt_rec [of 1])



section \<open>Properties of the training loop\<close>

subsection \<open>Schedule reads\<close>

lemma DINOLoss_init_run:
  "\<exists>loss. DINOLoss_init out_dim (local_crops_number + 2) warmup_teacher_temp teacher_temp
              warmup_teacher_temp_epochs (int no_epoches) (1 / 10) (9 / 10) = Inr loss
        \<and> length (teacher_temp_schedule loss) = no_epoches"
  by (simp add: DINOLoss_init_def linspace_def ones_def warmup_teacher_temp_epochs_def
        no_epoches_def)

lemma train_step_last_epoch:
  assumes "length lr_schedule = no_epoches * loader_len env"
  shows "train_step env lr_schedule wd_schedule no_epoches batch_idx st = Inl IndexError"
proof -
  have "int (length lr_schedule) \<le> int (loader_len env * no_epoches + batch_idx)"
    using assms by (simp add: mult.commute)
  then have "getitem lr_schedule (int (loader_len env * no_epoches + batch_idx)) = Inl IndexError"
    by (rule getitem_beyond)
  then show ?thesis by (simp add: train_step_def Let_def)
qed

text \<open>
  C4 claims that every read of the learning-rate, weight-decay and teacher-temperature
  schedules is in bounds.  The loop over the epochs runs over \<open>1, \<dots>, no_epoches\<close>,
  not over \<open>0, \<dots>, no_epoches - 1\<close>.  In the epoch \<open>no_epoches\<close> the global step
  \<open>loader_len * no_epoches + batch_idx\<close> is at least the length
  \<open>no_epoches * loader_len\<close> of the learning-rate schedule, so the step raises
  \<open>IndexError\<close> for every batch index and every state; and the epoch index \<open>no_epoches\<close>
  is the length of the teacher-temperature schedule, so that read raises too.
\<close>

theorem last_epoch_reads_out_of_range:
  assumes "schedule_length_law env"
  shows "no_epoches \<in> set [1 ..< no_epoches + 1]
       \<and> train_step env
           (cosine_scheduler env (learning_rate * real (batch_size * world_size) / 256)
              min_learing_rate no_epoches (loader_len env) (Some warmup_epochs))
           wd_schedule no_epoches batch_idx st = Inl IndexError
       \<and> (\<exists>loss. DINOLoss_init out_dim (local_crops_number + 2) warmup_teacher_temp teacher_temp
                    warmup_teacher_temp_epochs (int no_epoches) (1 / 10) (9 / 10) = Inr loss
                \<and> getitem (teacher_temp_schedule loss) (int no_epoches) = Inl IndexError)"
proof -
  have a: "no_epoches \<in> set [1 ..< no_epoches + 1]" by (simp add: no_epoches_def)
  have "length (cosine_scheduler env (learning_rate * real (batch_size * world_size) / 256)
              min_learing_rate no_epoches (loader_len env) (Some warmup_epochs))
          = no_epoches * loader_len env"
    using assms by (simp add: schedule_length_law_def)
  then have b: "train_step env
           (cosine_scheduler env (learning_rate * real (batch_size * world_size) / 256)
              min_learing_rate no_epoches (loader_len env) (Some warmup_epochs))
           wd_schedule no_epoches batch_idx st = Inl IndexError"
    by (rule train_step_last_epoch)
  from DINOLoss_init_run obtain loss where
    l: "DINOLoss_init out_dim (local_crops_number + 2) warmup_teacher_temp teacher_temp
              warmup_teacher_temp_epochs (int no_epoches) (1 / 10) (9 / 10) = Inr loss"
       "length (teacher_temp_schedule loss) = no_epoches"
    by blast
  then have "getitem (teacher_temp_schedule loss) (int no_epoches) = Inl IndexError"
    by (simp add: getitem_beyond)
  with a b l(1) show ?thesis by blast
qed

theorem last_epoch_reads_out_of_range_witness:
  "schedule_length_law example_env
   \<and> no_epoches \<in> set [1 ..< no_epoches + 1]
   \<and> train_step example_env
       (cosine_scheduler example_env (learning_rate * real (batch_size * world_size) / 256)
          min_learing_rate no_epoches (loader_len example_env) (Some warmup_epochs))
       [] no_epoches 0 (initial_state example_env example_loss) = Inl IndexError
   \<and> (\<exists>loss. DINOLoss_init out_dim (local_crops_number + 2) warmup_teacher_temp teacher_temp
                warmup_teacher_temp_epochs (int no_epoches) (1 / 10) (9 / 10) = Inr loss
            \<and> getitem (teacher_temp_schedule loss) (int no_epoches) = Inl IndexError)"
  using last_epoch_reads_out_of_range [OF example_env_law] example_env_law by blast

text \<open>
  The teacher-temperature schedule is never changed, and a step that returns has read it
  in range.  So no run of the loop over the epochs returns: \<^verbatim>\<open>run\<close> always ends in an
  exception.
\<close>

lemma update_center_schedule:
  "update_center self peers t = Inr self'
     \<Longrightarrow> teacher_temp_schedule self' = teacher_temp_schedule self"
  by (auto simp: update_center_def Let_def bindE_Inr_iff)

lemma DINOLoss_forward_schedule:
  "DINOLoss_forward self peers s t epoch = Inr (l, self')
     \<Longrightarrow> teacher_temp_schedule self' = teacher_temp_schedule self"
  by (auto simp: DINOLoss_forward_def bindE_Inr_iff update_center_schedule split: if_splits)

lemma DINOLoss_forward_in_range:
  "DINOLoss_forward self peers s t epoch = Inr r
     \<Longrightarrow> epoch < int (length (teacher_temp_schedule self))"
  by (auto simp: DINOLoss_forward_def loss_terms_def bindE_Inr_iff getitem_def split: if_splits)

lemma train_step_schedule:
  assumes "train_step env lr wd epoch b st = Inr st'"
  shows "teacher_temp_schedule (dino_loss st') = teacher_temp_schedule (dino_loss st)
       \<and> int epoch < int (length (teacher_temp_schedule (dino_loss st)))"
proof -
  from assms obtain s_out t_out res where
    fw: "DINOLoss_forward (dino_loss st) [] s_out t_out (int epoch) = Inr res"
    and d: "dino_loss st' = snd res"
    unfolding train_step_def Let_def
    by (auto simp: bindE_Inr_iff case_prod_beta)
  from fw DINOLoss_forward_schedule
         [of "dino_loss st" "[]" s_out t_out "int epoch" "fst res" "snd res"]
    DINOLoss_forward_in_range [OF fw] d
  show ?thesis by simp
qed

lemma batch_loop_schedule:
  "batch_loop env lr wd epoch bs st = Inr st'
     \<Longrightarrow> teacher_temp_schedule (dino_loss st') = teacher_temp_schedule (dino_loss st)
       \<and> (bs \<noteq> [] \<longrightarrow> int epoch < int (length (teacher_temp_schedule (dino_loss st))))"
proof (induction bs arbitrary: st)
  case Nil
  then show ?case by simp
next
  case (Cons b bs)
  from Cons.prems obtain st1 where
    s1: "train_step env lr wd epoch b st = Inr st1"
    and s2: "batch_loop env lr wd epoch bs st1 = Inr st'"
    by (auto simp: bindE_Inr_iff)
  from train_step_schedule [OF s1] Cons.IH [OF s2] show ?case by simp
qed

lemma run_epoch_schedule:
  assumes "run_epoch env lr wd epoch st = Inr st'"
  shows "teacher_temp_schedule (dino_loss st') = teacher_temp_schedule (dino_loss st)
       \<and> epoch < length (teacher_temp_schedule (dino_loss st))"
proof -
  from assms obtain st1 where
    b: "batch_loop env lr wd epoch [0 ..< loader_len env] (st\<lparr>train_loss := 0\<rparr>) = Inr st1"
    and n: "loader_len env \<noteq> 0"
    and e: "st' = save_best env (train_loss st1 / real (loader_len env - 1 + 1)) st1"
    by (auto simp: run_epoch_def bindE_Inr_iff Let_def split: if_splits)
  from batch_loop_schedule [OF b] n show ?thesis
    by (simp add: e save_best_def)
qed

lemma epoch_loop_schedule:
  "epoch_loop env lr wd es st = Inr st'
     \<Longrightarrow> teacher_temp_schedule (dino_loss st') = teacher_temp_schedule (dino_loss st)
       \<and> (\<forall>e \<in> set es. e < length (teacher_temp_schedule (dino_loss st)))"
proof (induction es arbitrary: st)
  case Nil
  then show ?case by simp
next
  case (Cons e es)
  from Cons.prems obtain st1 where
    s1: "run_epoch env lr wd e st = Inr st1"
    and s2: "epoch_loop env lr wd es st1 = Inr st'"
    by (auto simp: bindE_Inr_iff)
  from run_epoch_schedule [OF s1] Cons.IH [OF s2] show ?case by simp
qed

lemma run_never_completes: "run env \<noteq> Inr st"
proof
  assume r: "run env = Inr st"
  then obtain loss lr wd where
    i: "DINOLoss_init out_dim (local_crops_number + 2) warmup_teacher_temp teacher_temp
              warmup_teacher_temp_epochs (int no_epoches) (1 / 10) (9 / 10) = Inr loss"
    and l: "epoch_loop env lr wd [1 ..< no_epoches + 1] (initial_state env loss) = Inr st"
    by (auto simp: run_def bindE_Inr_iff Let_def)
  from DINOLoss_init_run i have len: "length (teacher_temp_schedule loss) = no_epoches"
    by auto
  have d: "dino_loss (initial_state env loss) = loss" by (simp add: initial_state_def)
  have m: "no_epoches \<in> set [1 ..< no_epoches + 1]" by (simp add: no_epoches_def)
  from epoch_loop_schedule [OF l] m have "no_epoches < length (teacher_temp_schedule loss)"
    unfolding d by blast
  with len show False by simp
qed


subsection \<open>The teacher's parameters\<close>


text \<open>
  What a step that returns has done: the student and the optimizer are those the gradient
  step returned, the teacher is the momentum update of the old teacher with the new
  student, and neither the lowest loss nor the snapshots were touched.
\<close>

lemma train_step_Inr:
  assumes "train_step env lr_schedule wd_schedule epoch batch_idx st = Inr st'"
  shows "\<exists>lr wd loss.
           (student st', optimizer st')
             = gradient_step env (optimizer st) lr wd epoch (loader env epoch batch_idx)
                 (student st) (teacher st) (dino_loss st)
           \<and> momentum_update (996 / 1000) (student st') (teacher st) = Inr (teacher st')
           \<and> lowest_train_loss st' = lowest_train_loss st
           \<and> saved st' = saved st
           \<and> train_loss st' = train_loss st + loss"
proof -
  from assms obtain lr wd t_out s_out res teacher' where
    "DINOLoss_forward (dino_loss st) [] s_out t_out (int epoch) = Inr res"
    and mu: "momentum_update (996 / 1000)
          (fst (gradient_step env (optimizer st) lr wd epoch (loader env epoch batch_idx)
                 (student st) (teacher st) (dino_loss st))) (teacher st) = Inr teacher'"
    and st': "st' = st\<lparr>student := fst (gradient_step env (optimizer st) lr wd epoch
                         (loader env epoch batch_idx) (student st) (teacher st) (dino_loss st)),
                     teacher := teacher',
                     optimizer := snd (gradient_step env (optimizer st) lr wd epoch
                         (loader env epoch batch_idx) (student st) (teacher st) (dino_loss st)),
                     dino_loss := snd res, train_loss := train_loss st + fst res\<rparr>"
    unfolding train_step_def Let_def
    by (auto simp: bindE_Inr_iff case_prod_beta)
  show ?thesis
    apply (rule exI [of _ lr], rule exI [of _ wd], rule exI [of _ "fst res"])
    using mu by (simp add: st')
qed

lemma save_best_keeps_parameters:
  "student (save_best env l st) = student st \<and> teacher (save_best env l st) = teacher st"
  by (simp add: save_best_def)




subsection \<open>Snapshots of the best epoch\<close>

lemma save_best_lowest:
  "lowest_train_loss (save_best env l st) = min l (lowest_train_loss st)"
  by (simp add: save_best_def)

lemma epoch_ends_append:
  "epoch_ends env (xs @ ys) st = epoch_ends env ys (epoch_ends env xs st)"
  by (induction xs arbitrary: st) auto

lemma lowest_epoch_ends:
  "lowest_train_loss (epoch_ends env eps st) = foldl min (lowest_train_loss st) (map fst eps)"
  by (induction eps arbitrary: st) (auto simp: save_best_lowest min.commute)

lemma less_foldl_min:
  "(x < foldl min (a::real) ls) \<longleftrightarrow> (x < a \<and> (\<forall>l \<in> set ls. x < l))"
  by (induction ls arbitrary: a) auto

text \<open>
  An epoch of \<^verbatim>\<open>run\<close> that returns ends with \<open>save_best\<close>, applied to the mean of the
  losses of its steps; the steps themselves leave the lowest loss and the snapshots alone.
\<close>

lemma batch_loop_keeps:
  "batch_loop env lr wd epoch bs st = Inr st'
     \<Longrightarrow> lowest_train_loss st' = lowest_train_loss st \<and> saved st' = saved st"
proof (induction bs arbitrary: st)
  case Nil
  then show ?case by simp
next
  case (Cons b bs)
  from Cons.prems obtain st1 where
    s1: "train_step env lr wd epoch b st = Inr st1"
    and s2: "batch_loop env lr wd epoch bs st1 = Inr st'"
    by (auto simp: bindE_Inr_iff)
  from train_step_Inr [OF s1] Cons.IH [OF s2] show ?case by auto
qed

lemma run_epoch_save_best:
  assumes "run_epoch env lr wd epoch st = Inr st'"
  shows "\<exists>st1. st' = save_best env (train_loss st1 / real (loader_len env)) st1
             \<and> lowest_train_loss st1 = lowest_train_loss st \<and> saved st1 = saved st"
proof -
  from assms obtain st1 where
    b: "batch_loop env lr wd epoch [0 ..< loader_len env] (st\<lparr>train_loss := 0\<rparr>) = Inr st1"
    and n: "loader_len env \<noteq> 0"
    and e: "st' = save_best env (train_loss st1 / real (loader_len env - 1 + 1)) st1"
    by (auto simp: run_epoch_def bindE_Inr_iff Let_def split: if_splits)
  from batch_loop_keeps [OF b] n e show ?thesis by auto
qed

text \<open>
  C8, as the code has it.  The lowest loss starts at 10.  At the end of epoch \<open>e\<close>, with
  mean loss \<open>l\<close>, the snapshots of the student's and the teacher's backbone are written if
  and only if \<open>l < 10\<close> and \<open>l\<close> is strictly lower than the mean loss of every earlier
  epoch; otherwise nothing is written.
\<close>

theorem checkpoint_written_iff:
  assumes "e < length eps" and "eps ! e = (l, sp, tp)"
  shows "saved (epoch_ends env (take (Suc e) eps) (initial_state env loss))
         = saved (epoch_ends env (take e eps) (initial_state env loss))
           @ (if l < 10 \<and> (\<forall>j < e. l < fst (eps ! j))
              then [(''./checkpoints/DINO_signal_student.pth'', backbone_state_dict env sp),
                    (''./checkpoints/DINO_signal_teacher.pth'', backbone_state_dict env tp)]
              else [])"
proof -
  let ?st = "epoch_ends env (take e eps) (initial_state env loss)"
  have low: "lowest_train_loss ?st = foldl min 10 (map fst (take e eps))"
    by (simp add: lowest_epoch_ends initial_state_def)
  have set_eq: "(\<forall>x \<in> set (map fst (take e eps)). l < x) \<longleftrightarrow> (\<forall>j < e. l < fst (eps ! j))"
  proof -
    have "set (take e eps) = (!) eps ` {0..<e}"
      using assms(1) by (simp add: nth_image)
    then show ?thesis by auto
  qed
  have step: "epoch_ends env (take (Suc e) eps) (initial_state env loss)
        = save_best env l (?st\<lparr>student := sp, teacher := tp\<rparr>)"
    using assms by (simp add: take_Suc_conv_app_nth epoch_ends_append)
  show ?thesis
    unfolding step using low set_eq
    by (simp add: save_best_def less_foldl_min)
qed

theorem checkpoint_written_iff_witness:
  "(1 :: nat) < length [(11 :: real, [[1 :: real]], [[2 :: real]]), (9, [[3], [4]], [[5], [6]])]
   \<and> [(11 :: real, [[1 :: real]], [[2 :: real]]), (9, [[3], [4]], [[5], [6]])] ! 1
       = (9, [[3], [4]], [[5], [6]])
   \<and> saved (epoch_ends example_env
              [(11, [[1]], [[2]]), (9, [[3], [4]], [[5], [6]])]
              (initial_state example_env example_loss))
       = [(''./checkpoints/DINO_signal_student.pth'', [[3]]),
          (''./checkpoints/DINO_signal_teacher.pth'', [[5]])]"
proof -
  have h1: "(1 :: nat) < length [(11 :: real, [[1 :: real]], [[2 :: real]]),
                                 (9, [[3], [4]], [[5], [6]])]"
    by simp
  have h2: "[(11 :: real, [[1 :: real]], [[2 :: real]]), (9, [[3], [4]], [[5], [6]])] ! 1
              = (9, [[3], [4]], [[5], [6]])"
    by simp
  from checkpoint_written_iff [OF h1 h2, of example_env example_loss] h1 h2
  show ?thesis
    by (simp add: save_best_def initial_state_def example_env_simps)
qed

text \<open>
  The claim as the spec words it fails: a first epoch with mean loss 11 has no earlier
  epoch to compare with, and yet nothing is written.
\<close>

theorem checkpoint_not_written_at_eleven:
  "saved (epoch_ends example_env [(11, [[1]], [[2]])] (initial_state example_env example_loss))
     = []"
  by (simp add: save_best_def initial_state_def)


section \<open>Properties of the loss\<close>

subsection \<open>The center\<close>

lemma column_sum_length: "t \<noteq> [] \<Longrightarrow> length (column_sum t) = length (hd t)"
  by (cases t) (simp_all add: column_sum_def)

lemma column_sum_nth:
  "t \<noteq> [] \<Longrightarrow> j < length (hd t) \<Longrightarrow> column_sum t ! j = sum_list (map (\<lambda>row. row ! j) t)"
  by (cases t) (simp_all add: column_sum_def)

lemma all_reduce_length:
  "\<forall>p \<in> set peers. length p = length v \<Longrightarrow> length (all_reduce v peers) = length v"
  unfolding all_reduce_def
  by (induction peers arbitrary: v) simp_all

lemma all_reduce_nth:
  "\<forall>p \<in> set peers. length p = length v \<Longrightarrow> j < length v
     \<Longrightarrow> all_reduce v peers ! j = v ! j + sum_list (map (\<lambda>p. p ! j) peers)"
  unfolding all_reduce_def
proof (induction peers arbitrary: v)
  case Nil
  then show ?case by simp
next
  case (Cons p peers)
  have "\<forall>q \<in> set peers. length q = length (map2 (+) v p)"
    using Cons.prems by simp
  moreover have "j < length (map2 (+) v p)" using Cons.prems by simp
  ultimately have "foldl (map2 (+)) (map2 (+) v p) peers ! j
      = map2 (+) v p ! j + sum_list (map (\<lambda>p. p ! j) peers)"
    by (rule Cons.IH)
  then show ?case using Cons.prems by simp
qed

lemma twice_divided:
  "x / real (n * (k + 1)) / real n = x / ((real n)\<^sup>2 * real (k + 1))"
  by (simp add: power2_eq_square algebra_simps)

lemma update_center_closed:
  assumes ne: "teacher_output \<noteq> []"
    and rows: "\<forall>r \<in> set teacher_output. length r = length (center self)"
    and peers: "\<forall>p \<in> set peers. length p = length (center self)"
  shows "update_center self peers teacher_output
         = Inr (self\<lparr>center := spec_center self peers teacher_output\<rparr>)"
proof -
  let ?d = "length (center self)"
  let ?n = "real (length teacher_output)"
  let ?ws = "real (length peers + 1)"
  let ?m = "center_momentum self"
  let ?red = "all_reduce (column_sum teacher_output) peers"
  let ?bc = "map (\<lambda>v. v / ?n) (map (\<lambda>v. v / real (length teacher_output * get_world_size peers)) ?red)"
  have hd: "length (hd teacher_output) = ?d" using ne rows by (cases teacher_output) auto
  have cl: "length (column_sum teacher_output) = ?d"
    using ne hd by (simp add: column_sum_length)
  have pl: "\<forall>p \<in> set peers. length p = length (column_sum teacher_output)"
    using peers cl by simp
  have rl: "length ?red = ?d" using all_reduce_length [OF pl] cl by simp
  have rn: "?red ! j = sum_list (map (\<lambda>row. row ! j) teacher_output)
                        + sum_list (map (\<lambda>p. p ! j) peers)" if "j < ?d" for j
    using all_reduce_nth [OF pl, of j] that cl column_sum_nth [OF ne, of j] hd by simp
  have bl: "length ?bc = ?d" using rl by simp
  have "bcast (+) (map (\<lambda>c. c * ?m) (center self)) (map (\<lambda>v. v * (1 - ?m)) ?bc)
        = Inr (map2 (+) (map (\<lambda>c. c * ?m) (center self)) (map (\<lambda>v. v * (1 - ?m)) ?bc))"
    using bl by (simp add: bcast_def)
  moreover have "map2 (+) (map (\<lambda>c. c * ?m) (center self)) (map (\<lambda>v. v * (1 - ?m)) ?bc)
        = spec_center self peers teacher_output"
  proof (rule nth_equalityI)
    show "length (map2 (+) (map (\<lambda>c. c * ?m) (center self)) (map (\<lambda>v. v * (1 - ?m)) ?bc))
          = length (spec_center self peers teacher_output)"
      using bl by (simp add: spec_center_def)
  next
    fix j
    assume "j < length (map2 (+) (map (\<lambda>c. c * ?m) (center self)) (map (\<lambda>v. v * (1 - ?m)) ?bc))"
    then have j: "j < ?d" using bl by simp
    then have jr: "j < length ?red" using rl by simp
    have "?bc ! j = ?red ! j / real (length teacher_output * (length peers + 1)) / ?n"
      using jr by (simp add: get_world_size_def)
    then have "?bc ! j = ?red ! j / (?n\<^sup>2 * ?ws)"
      by (simp only: twice_divided)
    then have "?bc ! j = (sum_list (map (\<lambda>row. row ! j) teacher_output)
                        + sum_list (map (\<lambda>p. p ! j) peers)) / (?n\<^sup>2 * ?ws)"
      by (simp only: rn [OF j])
    moreover have "map2 (+) (map (\<lambda>c. c * ?m) (center self)) (map (\<lambda>v. v * (1 - ?m)) ?bc) ! j
          = center self ! j * ?m + ?bc ! j * (1 - ?m)"
      using j bl by (simp del: map_map)
    moreover have "spec_center self peers teacher_output ! j
          = center self ! j * ?m
            + (sum_list (map (\<lambda>row. row ! j) teacher_output)
                        + sum_list (map (\<lambda>p. p ! j) peers)) / (?n\<^sup>2 * ?ws) * (1 - ?m)"
      using j by (simp add: spec_center_def)
    ultimately show "map2 (+) (map (\<lambda>c. c * ?m) (center self)) (map (\<lambda>v. v * (1 - ?m)) ?bc) ! j
          = spec_center self peers teacher_output ! j"
      by (simp only:)
  qed
  ultimately have b:
    "bcast (+) (map (\<lambda>c. c * ?m) (center self)) (map (\<lambda>v. v * (1 - ?m)) ?bc)
        = Inr (spec_center self peers teacher_output)"
    by (simp only:)
  show ?thesis
    unfolding update_center_def Let_def b by simp
qed

text \<open>
  C1.  For a teacher output of at least one row (all rows, the center and the tensors of
  the other processes of one width), the center update sums the columns of the teacher
  output, adds the sums of the other processes, divides by \<open>rows * world size\<close> and again
  by \<open>rows\<close>, which is a scale of \<open>1 / (rows\<^sup>2 * world size)\<close>, and sets the center to
  \<open>old * momentum + batch_center * (1 - momentum)\<close>; a loss computation that returns has
  updated the center in exactly this way, once.  (The values are modelled, not the
  gradient graph: \<^verbatim>\<open>update_center\<close> runs under \<^verbatim>\<open>torch.no_grad\<close>.)
\<close>

theorem center_update_scale:
  assumes "teacher_output \<noteq> []"
    and "\<forall>r \<in> set teacher_output. length r = length (center self)"
    and "\<forall>p \<in> set peers. length p = length (center self)"
  shows "update_center self peers teacher_output
           = Inr (self\<lparr>center := spec_center self peers teacher_output\<rparr>)
       \<and> (\<forall>loss self'.
             DINOLoss_forward self peers student_output teacher_output epoch = Inr (loss, self')
             \<longrightarrow> self' = self\<lparr>center := spec_center self peers teacher_output\<rparr>)"
proof -
  have u: "update_center self peers teacher_output
           = Inr (self\<lparr>center := spec_center self peers teacher_output\<rparr>)"
    using assms by (rule update_center_closed)
  have "self' = self\<lparr>center := spec_center self peers teacher_output\<rparr>"
    if "DINOLoss_forward self peers student_output teacher_output epoch = Inr (loss, self')"
    for loss self'
    using that unfolding DINOLoss_forward_def u
    by (auto simp: bindE_Inr_iff split: if_splits)
  with u show ?thesis by blast
qed

theorem center_update_scale_witness:
  "[[1], [1 :: real]] \<noteq> []
   \<and> update_center example_loss [] [[1], [1]]
       = Inr (example_loss\<lparr>center := spec_center example_loss [] [[1], [1]]\<rparr>)
   \<and> DINOLoss_forward example_loss [] [[1], [1]] [[1], [1]] 1
       = Inr (0, example_loss\<lparr>center := spec_center example_loss [] [[1], [1]]\<rparr>)
   \<and> spec_center example_loss [] [[1], [1]] = [1 / 20]"
proof -
  have h1: "[[1], [1 :: real]] \<noteq> []" by simp
  have h2: "\<forall>r \<in> set [[1], [1 :: real]]. length r = length (center example_loss)"
    by (simp add: example_loss_def)
  have h3: "\<forall>p \<in> set ([] :: vec list). length p = length (center example_loss)" by simp
  have v: "spec_center example_loss [] [[1], [1]] = [1 / 20]"
    by (simp add: spec_center_def example_loss_def)
  note t = center_update_scale [OF h1 h2 h3, of "[[1], [1]]" 1]
  show ?thesis
    unfolding v by (intro conjI h1 t [THEN conjunct1, unfolded v] example_forward refl)
qed


subsection \<open>The pairs of views\<close>

lemma split_size_exact:
  assumes "0 < b" "0 < k" "length xs = k * b"
  shows "split_size b xs = map (\<lambda>i. nth_chunk b i xs) [0 ..< k]"
proof -
  have "(k * b + b - 1) div b = k"
    by (rule div_nat_eqI) (use assms(1) in \<open>simp_all add: algebra_simps\<close>)
  moreover have "max k 1 = k" using assms(2) by simp
  ultimately show ?thesis using assms(3) by (simp add: split_size_def nth_chunk_def)
qed

lemma chunk_exact:
  assumes "0 < b" "0 < k" "length xs = k * b"
  shows "chunk (int k) xs = Inr (map (\<lambda>i. nth_chunk b i xs) [0 ..< k])"
proof -
  have "(k * b + k - 1) div k = b"
    by (rule div_nat_eqI) (use assms(2) in \<open>simp_all add: algebra_simps\<close>)
  then show ?thesis
    using assms by (simp add: chunk_def Let_def split_size_exact)
qed

lemma length_nth_chunk:
  "i < k \<Longrightarrow> length xs = k * b \<Longrightarrow> length (nth_chunk b i xs) = b"
proof -
  assume "i < k" "length xs = k * b"
  then have "Suc i \<le> k" by simp
  then have "Suc i * b \<le> k * b" by (rule mult_le_mono1)
  then have "b \<le> k * b - i * b" by simp
  then show ?thesis using \<open>length xs = k * b\<close> by (simp add: nth_chunk_def)
qed

lemma set_nth_chunk: "set (nth_chunk b i xs) \<subseteq> set xs"
  unfolding nth_chunk_def by (meson set_take_subset set_drop_subset subset_trans)

lemma bcast_same: "length x = length y \<Longrightarrow> bcast f x y = Inr (map2 f x y)"
  by (simp add: bcast_def)

lemma bcast2_same:
  assumes "length s = length t" "\<forall>(x, y) \<in> set (zip s t). length x = length y"
  shows "bcast2 f s t = Inr (map (\<lambda>(x, y). map2 f x y) (zip s t))"
proof -
  have "mapE (\<lambda>(x, y). bcast f x y) (zip s t) = Inr (map (\<lambda>(x, y). map2 f x y) (zip s t))"
    by (rule mapE_all_Inr) (use assms(2) in \<open>auto simp: bcast_same\<close>)
  then show ?thesis using assms(1) by (simp add: bcast2_def)
qed

lemma sum_list_neg_mult:
  "sum_list (map2 (*) (map uminus a) b) = sum_list (map2 (\<lambda>p l. - p * l) a b)"
  for a b :: "real list"
proof (induction a arbitrary: b)
  case Nil
  then show ?case by simp
next
  case (Cons x a)
  then show ?case by (cases b) simp_all
qed

lemma pair_loss_cross_entropy:
  assumes "length q = length s"
    and "\<forall>r \<in> set q. length r = d" and "\<forall>r \<in> set s. length r = d"
  shows "pair_loss q s = Inr (cross_entropy q s)"
proof -
  have w: "\<forall>(x, y) \<in> set (zip (map (map uminus) q) (map log_softmax s)). length x = length y"
  proof (clarify)
    fix x y
    assume "(x, y) \<in> set (zip (map (map uminus) q) (map log_softmax s))"
    then obtain n where n: "n < length q" "n < length s"
      "x = map uminus (q ! n)" "y = log_softmax (s ! n)"
      by (auto simp: in_set_zip)
    then have "length (q ! n) = d" "length (s ! n) = d" using assms(2,3) by simp_all
    then show "length x = length y" using n by (simp add: log_softmax_def)
  qed
  have "bcast2 (*) (map (map uminus) q) (map log_softmax s)
      = Inr (map (\<lambda>(x, y). map2 (*) x y) (zip (map (map uminus) q) (map log_softmax s)))"
    by (rule bcast2_same) (use assms(1) w in simp_all)
  moreover have "map sum_list (map (\<lambda>(x, y). map2 (*) x y) (zip (map (map uminus) q) (map log_softmax s)))
     = map (\<lambda>(q_row, s_row). sum_list (map2 (\<lambda>p l. - p * l) q_row (log_softmax s_row))) (zip q s)"
  proof -
    have "zip (map (map uminus) q) (map log_softmax s)
          = map (\<lambda>(x, y). (map uminus x, log_softmax y)) (zip q s)"
      by (simp add: zip_map_map)
    then have "map sum_list (map (\<lambda>(x, y). map2 (*) x y)
                 (zip (map (map uminus) q) (map log_softmax s)))
          = map (\<lambda>(q_row, s_row). sum_list (map2 (*) (map uminus q_row) (log_softmax s_row)))
              (zip q s)"
      by (simp add: case_prod_beta comp_def)
    then show ?thesis by (simp only: sum_list_neg_mult)
  qed
  ultimately show ?thesis
    by (simp add: pair_loss_def cross_entropy_def)
qed

lemma inner_loop_sum:
  assumes "\<forall>v \<in> set vs. v \<noteq> iq \<longrightarrow> pair_loss q (student_out ! v) = Inr (f v)"
  shows "inner_loop student_out iq q vs (t, n)
         = Inr (t + sum_list (map f (filter (\<lambda>v. v \<noteq> iq) vs)),
                n + length (filter (\<lambda>v. v \<noteq> iq) vs))"
  using assms
  by (induction vs arbitrary: t n) (simp_all add: add.assoc)

lemma outer_loop_sum:
  assumes "\<forall>(iq, q) \<in> set qs. \<forall>v < length student_out. v \<noteq> iq
              \<longrightarrow> pair_loss q (student_out ! v) = Inr (f iq v)"
  shows "outer_loop student_out qs (t, n)
         = Inr (t + sum_list (map (\<lambda>(iq, v). f iq v)
                      (concat (map (\<lambda>(iq, q). map (Pair iq)
                           (filter (\<lambda>v. v \<noteq> iq) [0 ..< length student_out])) qs))),
                n + length (concat (map (\<lambda>(iq, q). map (Pair iq)
                           (filter (\<lambda>v. v \<noteq> iq) [0 ..< length student_out])) qs)))"
  using assms
proof (induction qs arbitrary: t n)
  case Nil
  then show ?case by simp
next
  case (Cons a qs)
  obtain iq q where a: "a = (iq, q)" by (cases a)
  have "\<forall>v \<in> set [0 ..< length student_out]. v \<noteq> iq
          \<longrightarrow> pair_loss q (student_out ! v) = Inr (f iq v)"
    using Cons.prems a by auto
  from inner_loop_sum [OF this, of t n]
  have i: "inner_loop student_out iq q [0 ..< length student_out] (t, n)
         = Inr (t + sum_list (map (f iq) (filter (\<lambda>v. v \<noteq> iq) [0 ..< length student_out])),
                n + length (filter (\<lambda>v. v \<noteq> iq) [0 ..< length student_out]))" .
  have r: "\<forall>(iq, q) \<in> set qs. \<forall>v < length student_out. v \<noteq> iq
              \<longrightarrow> pair_loss q (student_out ! v) = Inr (f iq v)"
    using Cons.prems by auto
  show ?case
    unfolding a
    by (simp add: i Cons.IH [OF r] comp_def add.assoc)
qed

lemma upt_two: "[0 ..< 2] = [0, 1 :: nat]"
  by (simp add: upt_rec [of 0] upt_rec [of "Suc 0"])

lemma view_pairs_concat:
  "view_pairs N = concat (map (\<lambda>iq. map (Pair iq) (filter (\<lambda>v. v \<noteq> iq) [0 ..< N])) [0 ..< 2])"
proof -
  have "concat (map (\<lambda>v. if v \<noteq> iq then [(iq, v)] else []) vs)
        = map (Pair iq) (filter (\<lambda>v. v \<noteq> iq) vs)" for iq :: nat and vs
    by (induction vs) auto
  then show ?thesis by (simp add: view_pairs_def)
qed

lemma length_filter_neq:
  "iq < N \<Longrightarrow> length (filter (\<lambda>v. v \<noteq> iq) [0 ..< N]) = N - 1"
proof (induction N)
  case 0
  then show ?case by simp
next
  case (Suc N)
  show ?case
  proof (cases "iq = N")
    case True
    have "filter (\<lambda>v. v \<noteq> N) [0 ..< N] = [0 ..< N]" by (rule filter_True) simp
    then show ?thesis using True by simp
  next
    case False
    then have "iq < N" using Suc.prems by simp
    then show ?thesis using Suc.IH False by auto
  qed
qed

lemma length_view_pairs: "2 \<le> N \<Longrightarrow> length (view_pairs N) = 2 * N - 2"
proof -
  assume n: "2 \<le> N"
  then have "length (filter (\<lambda>v. v \<noteq> 0) [0 ..< N]) = N - 1"
    and "length (filter (\<lambda>v. v \<noteq> 1) [0 ..< N]) = N - 1"
    using length_filter_neq [of 0 N] length_filter_neq [of 1 N] by simp_all
  then have "length (view_pairs N) = (N - 1) + (N - 1)"
    unfolding view_pairs_concat upt_two by simp
  then show ?thesis using n by simp
qed

lemma set_view_pairs: "set (view_pairs N) = {(iq, v). iq < 2 \<and> v < N \<and> v \<noteq> iq}"
  by (auto simp: view_pairs_def)

lemma distinct_view_pairs: "distinct (view_pairs N)"
  unfolding view_pairs_concat upt_two
  by (auto simp: distinct_map inj_on_def)

lemma getitem_in_range:
  "0 \<le> i \<Longrightarrow> i < int (length xs) \<Longrightarrow> getitem xs i = Inr (xs ! nat i)"
  by (simp add: getitem_def)

lemma subtract_center:
  assumes "2 \<le> length t" and "\<forall>r \<in> set t. length r = length c"
  shows "bcast2 (-) t [c] = Inr (map (\<lambda>r. map2 (-) r c) t)"
proof -
  have "mapE (\<lambda>x. bcast (-) x (hd [c])) t = Inr (map (\<lambda>r. map2 (-) r c) t)"
    by (rule mapE_all_Inr) (use assms(2) in \<open>simp add: bcast_same\<close>)
  then show ?thesis using assms(1) by (simp add: bcast2_def)
qed

lemma loss_terms_pairs:
  assumes N: "2 \<le> N" "ncrops self = int N"
    and B: "0 < B"
    and s: "length student_output = N * B" "\<forall>r \<in> set student_output. length r = length (center self)"
    and t: "length teacher_output = 2 * B" "\<forall>r \<in> set teacher_output. length r = length (center self)"
    and e: "0 \<le> epoch" "epoch < int (length (teacher_temp_schedule self))"
  shows "loss_terms self student_output teacher_output epoch
         = Inr (sum_list (map (\<lambda>(iq, v).
                 cross_entropy (nth_chunk B iq (teacher_probs self teacher_output epoch))
                               (nth_chunk B v (student_logits self student_output)))
               (view_pairs N)), 2 * N - 2)"
proof -
  let ?d = "length (center self)"
  let ?probs = "teacher_probs self teacher_output epoch"
  let ?logits = "student_logits self student_output"
  let ?f = "\<lambda>iq v. cross_entropy (nth_chunk B iq ?probs) (nth_chunk B v ?logits)"
  let ?student_out = "map (\<lambda>i. nth_chunk B i ?logits) [0 ..< N]"
  let ?teacher_out = "map (\<lambda>i. nth_chunk B i ?probs) [0 ..< 2]"
  have N0: "0 < N" using N(1) by simp
  have c1: "chunk (ncrops self) (map (map (\<lambda>v. v / student_temp self)) student_output)
            = Inr ?student_out"
    unfolding N(2) student_logits_def
    by (rule chunk_exact [OF B N0]) (simp add: s(1))
  have g: "getitem (teacher_temp_schedule self) epoch = Inr (teacher_temp_schedule self ! nat epoch)"
    using e by (rule getitem_in_range)
  have b: "bcast2 (-) teacher_output [center self]
            = Inr (map (\<lambda>r. map2 (-) r (center self)) teacher_output)"
    by (rule subtract_center) (use t B in simp_all)
  have p: "map softmax (map (map (\<lambda>v. v / (teacher_temp_schedule self ! nat epoch)))
              (map (\<lambda>r. map2 (-) r (center self)) teacher_output)) = ?probs"
    by (simp add: teacher_probs_def)
  have c2: "chunk 2 ?probs = Inr ?teacher_out"
    using chunk_exact [OF B, of 2 ?probs] t(1) by (simp add: teacher_probs_def)
  have wl: "\<forall>r \<in> set ?logits. length r = ?d"
    using s(2) by (simp add: student_logits_def)
  have wp: "\<forall>r \<in> set ?probs. length r = ?d"
    using t(2) by (simp add: teacher_probs_def softmax_def)
  have ll: "length ?logits = N * B" by (simp add: student_logits_def s(1))
  have lp: "length ?probs = 2 * B" by (simp add: teacher_probs_def t(1))
  have pl: "pair_loss (nth_chunk B iq ?probs) (nth_chunk B v ?logits) = Inr (?f iq v)"
    if "iq < 2" "v < N" for iq v
  proof (rule pair_loss_cross_entropy [where d = ?d])
    show "length (nth_chunk B iq ?probs) = length (nth_chunk B v ?logits)"
      using length_nth_chunk [OF that(1) lp] length_nth_chunk [OF that(2) ll] by simp
    show "\<forall>r \<in> set (nth_chunk B iq ?probs). length r = ?d"
      using wp set_nth_chunk [of B iq ?probs] by blast
    show "\<forall>r \<in> set (nth_chunk B v ?logits). length r = ?d"
      using wl set_nth_chunk [of B v ?logits] by blast
  qed
  have z: "zip [0 ..< length ?teacher_out] ?teacher_out
           = map (\<lambda>i. (i, nth_chunk B i ?probs)) [0 ..< 2]"
    by (simp add: upt_two)
  have pre: "\<forall>(iq, q) \<in> set (map (\<lambda>i. (i, nth_chunk B i ?probs)) [0 ..< 2]).
               \<forall>v < length ?student_out. v \<noteq> iq
                 \<longrightarrow> pair_loss q (?student_out ! v) = Inr (?f iq v)"
    using pl by auto
  have pairs: "concat (map (\<lambda>(iq, q). map (Pair iq)
                  (filter (\<lambda>v. v \<noteq> iq) [0 ..< length ?student_out]))
                  (map (\<lambda>i. (i, nth_chunk B i ?probs)) [0 ..< 2])) = view_pairs N"
    by (simp add: view_pairs_concat comp_def)
  have o: "outer_loop ?student_out (zip [0 ..< length ?teacher_out] ?teacher_out) (0, 0)
        = Inr (sum_list (map (\<lambda>(iq, v). ?f iq v) (view_pairs N)), 2 * N - 2)"
    unfolding z
    using outer_loop_sum [OF pre, of 0 0] length_view_pairs [OF N(1)]
    by (simp only: pairs add_0)
  show ?thesis
    unfolding loss_terms_def c1 g b bindE_simps p c2 using o .
qed

text \<open>
  C2.  Let the loss have \<open>N \<ge> 2\<close> crops, the student's output \<open>N * B\<close> rows and the
  teacher's \<open>2 * B\<close> rows, \<open>B \<ge> 1\<close> (all rows and the center of one width, the epoch an
  index of the temperature schedule, the two temperatures not zero).  Then the loops add one mean cross-entropy term
  for every pair of a teacher chunk \<open>iq \<in> {0, 1}\<close> and a student chunk \<open>v \<in> {0..N-1}\<close>
  with \<open>v \<noteq> iq\<close> and for no other pair; these are \<open>2 * N - 2\<close> pairs; and the loss
  returned is the sum of the terms divided by \<open>2 * N - 2\<close>.
\<close>

theorem loss_over_cross_view_pairs:
  assumes "2 \<le> N" and "ncrops self = int N" and "0 < B"
    and "length student_output = N * B"
    and "\<forall>r \<in> set student_output. length r = length (center self)"
    and "length teacher_output = 2 * B"
    and "\<forall>r \<in> set teacher_output. length r = length (center self)"
    and "0 \<le> epoch" and "epoch < int (length (teacher_temp_schedule self))"
    and "\<forall>p \<in> set peers. length p = length (center self)"
    and "student_temp self \<noteq> 0" and "teacher_temp_schedule self ! nat epoch \<noteq> 0"
  shows "loss_terms self student_output teacher_output epoch
           = Inr (sum_list (map (\<lambda>(iq, v).
                     cross_entropy (nth_chunk B iq (teacher_probs self teacher_output epoch))
                                   (nth_chunk B v (student_logits self student_output)))
                   (view_pairs N)), 2 * N - 2)
       \<and> DINOLoss_forward self peers student_output teacher_output epoch
           = Inr (sum_list (map (\<lambda>(iq, v).
                     cross_entropy (nth_chunk B iq (teacher_probs self teacher_output epoch))
                                   (nth_chunk B v (student_logits self student_output)))
                   (view_pairs N)) / real (2 * N - 2),
                  self\<lparr>center := spec_center self peers teacher_output\<rparr>)
       \<and> set (view_pairs N) = {(iq, v). iq < 2 \<and> v < N \<and> v \<noteq> iq}
       \<and> distinct (view_pairs N)
       \<and> length (view_pairs N) = 2 * N - 2"
proof -
  have lt: "loss_terms self student_output teacher_output epoch
           = Inr (sum_list (map (\<lambda>(iq, v).
                     cross_entropy (nth_chunk B iq (teacher_probs self teacher_output epoch))
                                   (nth_chunk B v (student_logits self student_output)))
                   (view_pairs N)), 2 * N - 2)"
    using assms(1-9) by (rule loss_terms_pairs)
  have ne: "teacher_output \<noteq> []" using assms(3,6) by auto
  have u: "update_center self peers teacher_output
           = Inr (self\<lparr>center := spec_center self peers teacher_output\<rparr>)"
    using ne assms(7,10) by (rule update_center_closed)
  have n: "2 * N - 2 \<noteq> 0" using assms(1) by simp
  have fw: "DINOLoss_forward self peers student_output teacher_output epoch
           = Inr (sum_list (map (\<lambda>(iq, v).
                     cross_entropy (nth_chunk B iq (teacher_probs self teacher_output epoch))
                                   (nth_chunk B v (student_logits self student_output)))
                   (view_pairs N)) / real (2 * N - 2),
                  self\<lparr>center := spec_center self peers teacher_output\<rparr>)"
    unfolding DINOLoss_forward_def lt u using n by simp
  from lt fw set_view_pairs [of N] distinct_view_pairs [of N] length_view_pairs [OF assms(1)]
  show ?thesis by blast
qed

lemma example_view_pairs: "view_pairs 2 = [(0, 1), (1, 0)]"
  by (simp add: view_pairs_def upt_two)

theorem loss_over_cross_view_pairs_witness:
  "(2 :: nat) \<le> 2 \<and> ncrops example_loss = int 2 \<and> (0 :: nat) < 1
   \<and> length [[1], [1 :: real]] = 2 * 1
   \<and> (0 :: int) \<le> 1 \<and> 1 < int (length (teacher_temp_schedule example_loss))
   \<and> student_temp example_loss \<noteq> 0 \<and> teacher_temp_schedule example_loss ! nat 1 \<noteq> 0
   \<and> loss_terms example_loss [[1], [1]] [[1], [1]] 1
       = Inr (sum_list (map (\<lambda>(iq, v).
                 cross_entropy (nth_chunk 1 iq (teacher_probs example_loss [[1], [1]] 1))
                               (nth_chunk 1 v (student_logits example_loss [[1], [1]])))
               (view_pairs 2)), 2 * 2 - 2)
   \<and> DINOLoss_forward example_loss [] [[1], [1]] [[1], [1]] 1
       = Inr (sum_list (map (\<lambda>(iq, v).
                 cross_entropy (nth_chunk 1 iq (teacher_probs example_loss [[1], [1]] 1))
                               (nth_chunk 1 v (student_logits example_loss [[1], [1]])))
               (view_pairs 2)) / real (2 * 2 - 2),
              example_loss\<lparr>center := spec_center example_loss [] [[1], [1]]\<rparr>)
   \<and> view_pairs 2 = [(0, 1), (1, 0)]"
proof -
  have h1: "(2 :: nat) \<le> 2" by simp
  have h2: "ncrops example_loss = int 2" by (simp add: example_loss_def)
  have h3: "(0 :: nat) < 1" by simp
  have h4: "length [[1], [1 :: real]] = 2 * 1" by simp
  have h5: "\<forall>r \<in> set [[1], [1 :: real]]. length r = length (center example_loss)"
    by (simp add: example_loss_def)
  have h8: "(0 :: int) \<le> 1" by simp
  have h9: "1 < int (length (teacher_temp_schedule example_loss))"
    by (simp add: example_loss_def)
  have h10: "\<forall>p \<in> set ([] :: vec list). length p = length (center example_loss)" by simp
  have h11: "student_temp example_loss \<noteq> 0" by (simp add: example_loss_def)
  have h12: "teacher_temp_schedule example_loss ! nat 1 \<noteq> 0" by (simp add: example_loss_def)
  note t = loss_over_cross_view_pairs [OF h1 h2 h3 h4 h5 h4 h5 h8 h9 h10 h11 h12]
  show ?thesis
    by (intro conjI h1 h2 h3 h4 h8 h9 h11 h12 t [THEN conjunct1]
          t [THEN conjunct2, THEN conjunct1] example_view_pairs)
qed


section \<open>Properties of the multi-crop wrapper\<close>

























section \<open>Properties of the truncated-normal initializer\<close>

subsection \<open>The error function is strictly increasing\<close>

lemma erf_coeff_term:
  "erf_coeff n * x ^ n = (if even n then 0 else erf_term x ((n - 1) div 2))"
proof (cases "even n")
  case True
  then show ?thesis by (simp add: erf_coeff_def)
next
  case False
  then obtain k where k: "n = 2 * k + 1" by (auto elim: oddE)
  then show ?thesis by (simp add: erf_coeff_def erf_term_def)
qed

lemma summable_erf_term: "summable (erf_term x)"
proof (rule summable_comparison_test)
  show "summable (\<lambda>k. 2 / sqrt pi * \<bar>x\<bar> * (inverse (fact k) * (x\<^sup>2) ^ k))"
    by (rule summable_mult) (rule summable_exp)
  have "norm (erf_term x k) \<le> 2 / sqrt pi * \<bar>x\<bar> * (inverse (fact k) * (x\<^sup>2) ^ k)" for k
  proof -
    have p: "\<bar>x\<bar> ^ (2 * k + 1) = \<bar>x\<bar> * (x\<^sup>2) ^ k"
      by (simp add: power_mult)
    have "norm (erf_term x k)
          = 2 / sqrt pi * (\<bar>x\<bar> ^ (2 * k + 1)) / (fact k * real (2 * k + 1))"
      unfolding erf_term_def by (simp add: abs_mult power_abs)
    also have "\<dots> = 2 / sqrt pi * \<bar>x\<bar> * (inverse (fact k) * (x\<^sup>2) ^ k) / real (2 * k + 1)"
      unfolding p by (simp add: divide_inverse)
    also have "\<dots> \<le> 2 / sqrt pi * \<bar>x\<bar> * (inverse (fact k) * (x\<^sup>2) ^ k) / 1"
      by (rule divide_left_mono) simp_all
    finally show ?thesis by simp
  qed
  then show "\<exists>N. \<forall>n\<ge>N. norm (erf_term x n)
                 \<le> 2 / sqrt pi * \<bar>x\<bar> * (inverse (fact n) * (x\<^sup>2) ^ n)"
    by blast
qed

lemma summable_erf_series: "summable (\<lambda>n. erf_coeff n * x ^ n)"
proof -
  have "erf_term x sums suminf (erf_term x)"
    using summable_erf_term by (rule summable_sums)
  then have "(\<lambda>n. if even n then 0 else erf_term x ((n - 1) div 2)) sums suminf (erf_term x)"
    by (rule sums_if')
  then show ?thesis by (simp add: erf_coeff_term sums_iff)
qed

lemma diffs_erf_coeff:
  "diffs erf_coeff n * x ^ n
     = (if even n then 2 / sqrt pi * ((- (x\<^sup>2)) ^ (n div 2) / fact (n div 2)) else 0)"
proof (cases "even n")
  case True
  then obtain k where k: "n = 2 * k" by (auto elim: evenE)
  have "(- (x\<^sup>2)) ^ k = (- 1) ^ k * x ^ (2 * k)"
    by (simp add: power_mult power_minus [of "x\<^sup>2"])
  then show ?thesis using k
    by (simp add: diffs_def erf_coeff_def)
next
  case False
  then show ?thesis by (simp add: diffs_def erf_coeff_def)
qed

lemma diffs_erf_sums:
  "(\<lambda>n. diffs erf_coeff n * x ^ n) sums (2 / sqrt pi * exp (- (x\<^sup>2)))"
proof -
  have "(\<lambda>k. (- (x\<^sup>2)) ^ k /\<^sub>R fact k) sums exp (- (x\<^sup>2))"
    by (rule exp_converges)
  then have "(\<lambda>k. 2 / sqrt pi * ((- (x\<^sup>2)) ^ k / fact k)) sums (2 / sqrt pi * exp (- (x\<^sup>2)))"
    by (intro sums_mult) (simp add: divide_inverse mult.commute)
  from sums_if [OF sums_zero this]
  have "(\<lambda>n. if even n then 2 / sqrt pi * ((- (x\<^sup>2)) ^ (n div 2) / fact (n div 2))
             else 0) sums (2 / sqrt pi * exp (- (x\<^sup>2)))"
    by simp
  then show ?thesis by (simp add: diffs_erf_coeff)
qed

lemma DERIV_erf: "DERIV erf x :> 2 / sqrt pi * exp (- (x\<^sup>2))"
proof -
  have "DERIV (\<lambda>x. \<Sum>n. erf_coeff n * x ^ n) x :> (\<Sum>n. diffs erf_coeff n * x ^ n)"
    using summable_erf_series by (rule termdiffs_strong_converges_everywhere)
  moreover have "(\<Sum>n. diffs erf_coeff n * x ^ n) = 2 / sqrt pi * exp (- (x\<^sup>2))"
    using diffs_erf_sums [of x] by (simp add: sums_iff)
  moreover have "erf = (\<lambda>x. \<Sum>n. erf_coeff n * x ^ n)"
    by (rule ext) (simp add: erf_def)
  ultimately show ?thesis by simp
qed

lemma erf_strict_mono:
  assumes "x < y"
  shows "erf x < erf y"
  using assms
proof (rule DERIV_pos_imp_increasing)
  fix z :: real
  have "0 < 2 / sqrt pi * exp (- (z\<^sup>2))" by simp
  then show "\<exists>d. DERIV erf z :> d \<and> 0 < d" using DERIV_erf by blast
qed

lemma erf_mono: "x \<le> y \<Longrightarrow> erf x \<le> erf y"
  using erf_strict_mono [of x y] by (cases "x = y") auto

lemma inj_erf: "inj erf"
proof (rule injI)
  fix x y :: real
  assume "erf x = erf y"
  then show "x = y"
    using erf_strict_mono [of x y] erf_strict_mono [of y x] by (cases x y rule: linorder_cases) auto
qed

lemma erfinv_erf: "erfinv (erf x) = x"
  unfolding erfinv_def using inj_erf by (rule the_inv_f_f)

lemma erf_zero: "erf 0 = 0"
proof -
  have "(\<lambda>n. erf_coeff n * 0 ^ n) = (\<lambda>n. 0)"
  proof (rule ext)
    fix n
    show "erf_coeff n * 0 ^ n = 0"
      by (cases n) (simp_all add: erf_coeff_def)
  qed
  then show ?thesis unfolding erf_def by simp
qed

subsection \<open>The initializer\<close>

lemma two_norm_cdf: "2 * norm_cdf x - 1 = erf (x / sqrt 2)"
  unfolding norm_cdf_def by (simp add: field_simps)

lemma clamp_inside: "a \<le> x \<Longrightarrow> x \<le> b \<Longrightarrow> clamp a b x = x"
  by (simp add: clamp_def)

lemma norm_cdf_mono: "x \<le> y \<Longrightarrow> norm_cdf x \<le> norm_cdf y"
  unfolding norm_cdf_def by (simp add: erf_mono divide_right_mono)

lemma trunc_normal_warning_nonempty: "trunc_normal_warning \<noteq> []"
  by (simp add: trunc_normal_warning_def)

lemma uniform_ok:
  "from \<le> to \<Longrightarrow> uniform rng tensor from to
     = Inr (map (\<lambda>i. from + (to - from) * rng i) [0 ..< length tensor])"
  by (simp add: uniform_def)

lemma no_grad_trunc_normal_ok:
  assumes "0 < std" and "a \<le> b"
  shows "no_grad_trunc_normal rng tensor mu std a b
         = (if mu < a - 2 * std \<or> mu > b + 2 * std then [trunc_normal_warning] else [],
            Inr (map (\<lambda>i. clamp a b
                    (erfinv ((2 * norm_cdf ((a - mu) / std) - 1)
                             + ((2 * norm_cdf ((b - mu) / std) - 1)
                                - (2 * norm_cdf ((a - mu) / std) - 1)) * rng i)
                       * (std * sqrt 2) + mu))
                  [0 ..< length tensor]))"
proof -
  have "(a - mu) / std \<le> (b - mu) / std"
    using assms by (simp add: divide_right_mono)
  then have "norm_cdf ((a - mu) / std) \<le> norm_cdf ((b - mu) / std)"
    by (rule norm_cdf_mono)
  then have le: "2 * norm_cdf ((a - mu) / std) - 1 \<le> 2 * norm_cdf ((b - mu) / std) - 1"
    by simp
  show ?thesis
    using assms(1) unfolding no_grad_trunc_normal_def Let_def uniform_ok [OF le]
    by (simp add: comp_def)
qed

lemma no_grad_trunc_normal_warned:
  "fst (no_grad_trunc_normal rng tensor mu std a b)
     = (if mu < a - 2 * std \<or> mu > b + 2 * std then [trunc_normal_warning] else [])"
  unfolding no_grad_trunc_normal_def Let_def
  by (simp split: sum.splits)

text \<open>
  C9.  Whatever its arguments, the initializer issues its warning, once, if and only if
  \<open>mean < a - 2 * std\<close> or \<open>mean > b + 2 * std\<close>, and issues nothing otherwise.  For a
  positive standard deviation and \<open>a \<le> b\<close> it then returns the tensor, warned or not,
  with every element overwritten: element \<open>i\<close> is the clamped inverse-CDF transform of
  the draw \<open>rng i\<close>.  For a standard deviation of zero it raises, warned or not.
\<close>

theorem trunc_normal_warns_iff:
  "(fst (trunc_normal rng tensor mu std a b) = [trunc_normal_warning])
     = (mu < a - 2 * std \<or> mu > b + 2 * std)
   \<and> (fst (trunc_normal rng tensor mu std a b) = [])
       = (\<not> (mu < a - 2 * std \<or> mu > b + 2 * std))
   \<and> (0 < std \<and> a \<le> b \<longrightarrow>
        snd (trunc_normal rng tensor mu std a b)
        = Inr (map (\<lambda>i. clamp a b
                    (erfinv (erf ((a - mu) / std / sqrt 2)
                             + (erf ((b - mu) / std / sqrt 2) - erf ((a - mu) / std / sqrt 2))
                               * rng i)
                       * (std * sqrt 2) + mu))
                  [0 ..< length tensor]))
   \<and> (std = 0 \<longrightarrow> snd (trunc_normal rng tensor mu std a b) = Inl ZeroDivisionError)"
proof -
  have w: "(fst (trunc_normal rng tensor mu std a b) = [trunc_normal_warning])
     = (mu < a - 2 * std \<or> mu > b + 2 * std)"
    and n: "(fst (trunc_normal rng tensor mu std a b) = [])
       = (\<not> (mu < a - 2 * std \<or> mu > b + 2 * std))"
    unfolding trunc_normal_def no_grad_trunc_normal_warned
    using trunc_normal_warning_nonempty by auto
  have r: "snd (trunc_normal rng tensor mu std a b)
        = Inr (map (\<lambda>i. clamp a b
                    (erfinv (erf ((a - mu) / std / sqrt 2)
                             + (erf ((b - mu) / std / sqrt 2) - erf ((a - mu) / std / sqrt 2))
                               * rng i)
                       * (std * sqrt 2) + mu))
                  [0 ..< length tensor])"
    if d: "0 < std" "a \<le> b"
    unfolding trunc_normal_def no_grad_trunc_normal_ok [OF d] two_norm_cdf by simp
  have z: "snd (trunc_normal rng tensor mu std a b) = Inl ZeroDivisionError" if "std = 0"
    using that by (simp add: trunc_normal_def no_grad_trunc_normal_def)
  from w n r z show ?thesis by blast
qed

text \<open>
  With the mean at 10, five standard deviations above \<open>[-2, 2]\<close>, and every draw 0, the
  initializer warns and overwrites both elements with \<open>-2\<close>; with a standard deviation
  of 0 it raises.
\<close>

theorem trunc_normal_warns_iff_witness:
  "(0 :: real) < 1 \<and> (- 2 :: real) \<le> 2
   \<and> (10 < - 2 - 2 * 1 \<or> (10 :: real) > 2 + 2 * 1)
   \<and> fst (trunc_normal (\<lambda>i. 0) [0, 0] 10 1 (- 2) 2) = [trunc_normal_warning]
   \<and> snd (trunc_normal (\<lambda>i. 0) [0, 0] 10 1 (- 2) 2) = Inr [- 2, - 2]
   \<and> snd (trunc_normal (\<lambda>i. 0) [0, 0] 10 0 (- 2) 2) = Inl ZeroDivisionError"
proof -
  have h1: "(0 :: real) < 1" and h2: "(- 2 :: real) \<le> 2" by simp_all
  have c: "10 < - 2 - 2 * 1 \<or> (10 :: real) > 2 + 2 * 1" by simp
  note t = trunc_normal_warns_iff [of "\<lambda>i. 0" "[0, 0]" 10 1 "- 2" 2]
  note u = trunc_normal_warns_iff [of "\<lambda>i. 0" "[0, 0]" 10 0 "- 2" 2]
  from t c have w: "fst (trunc_normal (\<lambda>i. 0) [0, 0] 10 1 (- 2) 2) = [trunc_normal_warning]"
    by (simp only: simp_thms)
  have s: "- (12 / sqrt 2) * sqrt 2 + 10 = (- 2 :: real)" by simp
  have "snd (trunc_normal (\<lambda>i. 0) [0, 0] 10 1 (- 2) 2)
        = Inr (map (\<lambda>i. clamp (- 2) 2
                    (erfinv (erf ((- 2 - 10) / 1 / sqrt 2)
                             + (erf ((2 - 10) / 1 / sqrt 2) - erf ((- 2 - 10) / 1 / sqrt 2))
                               * 0)
                       * (1 * sqrt 2) + 10))
                  [0 ..< length [0 :: real, 0]])"
    using t [THEN conjunct2, THEN conjunct2, THEN conjunct1, rule_format, OF conjI [OF h1 h2]] .
  then have r: "snd (trunc_normal (\<lambda>i. 0) [0, 0] 10 1 (- 2) 2) = Inr [- 2, - 2]"
    by (simp add: erfinv_erf s clamp_def)
  have z: "snd (trunc_normal (\<lambda>i. 0) [0, 0] 10 0 (- 2) 2) = Inl ZeroDivisionError"
    using u [THEN conjunct2, THEN conjunct2, THEN conjunct2, rule_format, OF refl] .
  from h1 h2 c w r z show ?thesis by (intro conjI)
qed

text \<open>
  The claim as the spec words it, for any arguments, fails: with the mean at 5 and a
  standard deviation of 0 the initializer warns, and then raises on the division by the
  standard deviation instead of returning the tensor.
\<close>

theorem trunc_normal_warns_then_raises:
  "(5 < - 2 - 2 * 0 \<or> (5 :: real) > 2 + 2 * 0)
   \<and> trunc_normal example_rng [0] 5 0 (- 2) 2 = ([trunc_normal_warning], Inl ZeroDivisionError)"
  by (simp add: trunc_normal_def no_grad_trunc_normal_def)

lemma clamp_range: "a \<le> b \<Longrightarrow> a \<le> clamp a b x \<and> clamp a b x \<le> b"
  by (auto simp: clamp_def)

lemma init_weights_Linear:
  "init_weights rng (LinearModule weight bias)
   = ([], Inr (LinearModule
        (map (\<lambda>i. clamp (- 2) 2
                (erfinv ((2 * norm_cdf (- 100) - 1)
                         + ((2 * norm_cdf 100 - 1) - (2 * norm_cdf (- 100) - 1)) * rng i)
                   * (2 / 100 * sqrt 2) + 0))
             [0 ..< length weight])
        (map_option (map (\<lambda>_. 0)) bias)))"
proof -
  have s: "(0 :: real) < 2 / 100" and ab: "(- 2 :: real) \<le> 2" by simp_all
  show ?thesis
    unfolding init_weights_def trunc_normal_def no_grad_trunc_normal_ok [OF s ab]
    by simp
qed

lemma example_draw_range: "0 \<le> example_draw \<and> example_draw < 1"
proof -
  have lo: "2 * norm_cdf (- 100) - 1 = erf (- 100 / sqrt 2)"
    and hi: "2 * norm_cdf 100 - 1 = erf (100 / sqrt 2)"
    by (simp_all only: two_norm_cdf)
  have "sqrt 2 < 50" by (rule real_less_lsqrt) simp_all
  then have "2 * sqrt 2 < 100" by simp
  then have a: "(2 :: real) < 100 / sqrt 2" by (simp add: pos_less_divide_eq mult.commute)
  have b: "- 100 / sqrt 2 < (2 :: real)"
  proof -
    have "- 100 / sqrt 2 < 0" by simp
    then show ?thesis by linarith
  qed
  have l: "erf (- 100 / sqrt 2) < erf 2" using b by (rule erf_strict_mono)
  have h: "erf 2 < erf (100 / sqrt 2)" using a by (rule erf_strict_mono)
  show ?thesis
    unfolding example_draw_def lo hi using l h by (simp add: divide_simps)
qed

lemma example_draw_sample:
  "(2 * norm_cdf (- 100) - 1)
     + ((2 * norm_cdf 100 - 1) - (2 * norm_cdf (- 100) - 1)) * example_draw = erf 2"
proof -
  have lo: "2 * norm_cdf (- 100) - 1 = erf (- 100 / sqrt 2)"
    and hi: "2 * norm_cdf 100 - 1 = erf (100 / sqrt 2)"
    by (simp_all only: two_norm_cdf)
  have "- 100 / sqrt 2 < 100 / sqrt 2" by simp
  then have "erf (- 100 / sqrt 2) < erf (100 / sqrt 2)" by (rule erf_strict_mono)
  then show ?thesis unfolding example_draw_def lo hi by (simp add: field_simps)
qed

text \<open>
  C6, as the code has it.  \<^verbatim>\<open>_init_weights\<close> calls the initializer with
  \<^verbatim>\<open>std=.02\<close> and the defaults \<^verbatim>\<open>mean=0., a=-2., b=2.\<close>: every weight is the
  inverse-CDF transform \<open>erfinv u * (0.02 * sqrt 2) + 0\<close> of a uniform sample \<open>u\<close> between
  \<open>2 * norm_cdf (-100) - 1\<close> and \<open>2 * norm_cdf 100 - 1\<close>, clamped to \<open>[-2, 2]\<close>; so
  every weight lies in \<open>[-2, 2]\<close>, which is 100 standard deviations about the mean.  No
  warning is issued and the bias becomes zero.
\<close>

theorem init_weights_range:
  "\<exists>weight'.
     init_weights rng (LinearModule weight bias)
       = ([], Inr (LinearModule weight' (map_option (map (\<lambda>_. 0)) bias)))
     \<and> length weight' = length weight
     \<and> (\<forall>i < length weight.
           weight' ! i
             = clamp (- 2) 2
                 (erfinv ((2 * norm_cdf (- 100) - 1)
                          + ((2 * norm_cdf 100 - 1) - (2 * norm_cdf (- 100) - 1)) * rng i)
                    * (2 / 100 * sqrt 2) + 0)
           \<and> - 2 \<le> weight' ! i \<and> weight' ! i \<le> 2)"
proof -
  let ?f = "\<lambda>i. clamp (- 2) 2
                 (erfinv ((2 * norm_cdf (- 100) - 1)
                          + ((2 * norm_cdf 100 - 1) - (2 * norm_cdf (- 100) - 1)) * rng i)
                    * (2 / 100 * sqrt 2) + 0)"
  let ?w = "map ?f [0 ..< length weight]"
  have r: "(- 2 :: real) \<le> clamp (- 2) 2 x \<and> clamp (- 2) 2 x \<le> 2" for x
    by (rule clamp_range) simp
  have a: "init_weights rng (LinearModule weight bias)
       = ([], Inr (LinearModule ?w (map_option (map (\<lambda>_. 0)) bias)))"
    by (rule init_weights_Linear)
  have b: "length ?w = length weight" by simp
  have c: "?w ! i = ?f i \<and> - 2 \<le> ?w ! i \<and> ?w ! i \<le> 2" if "i < length weight" for i
  proof -
    have "?w ! i = ?f i" using that by (simp only: nth_map_upt add_0 minus_nat.diff_0)
    then show ?thesis using r by (simp only: simp_thms)
  qed
  from a b c show ?thesis by blast
qed

theorem init_weights_range_witness:
  "\<exists>weight'.
     init_weights (\<lambda>i. 1 / 2) (LinearModule [7, 8] (Some [9]))
       = ([], Inr (LinearModule weight' (map_option (map (\<lambda>_. 0)) (Some [9 :: real]))))
     \<and> length weight' = length [7 :: real, 8]
     \<and> (0 :: nat) < length [7 :: real, 8]
     \<and> - 2 \<le> weight' ! 0 \<and> weight' ! 0 \<le> 2"
proof -
  from init_weights_range [of "\<lambda>i. 1 / 2" "[7, 8]" "Some [9]"]
  obtain weight' where
    w: "init_weights (\<lambda>i. 1 / 2) (LinearModule [7, 8] (Some [9]))
          = ([], Inr (LinearModule weight' (map_option (map (\<lambda>_. 0)) (Some [9 :: real]))))"
    and l: "length weight' = length [7 :: real, 8]"
    and v: "\<forall>i < length [7 :: real, 8].
              weight' ! i
                = clamp (- 2) 2
                    (erfinv ((2 * norm_cdf (- 100) - 1)
                             + ((2 * norm_cdf 100 - 1) - (2 * norm_cdf (- 100) - 1)) * (1 / 2))
                       * (2 / 100 * sqrt 2) + 0)
              \<and> - 2 \<le> weight' ! i \<and> weight' ! i \<le> 2"
    by blast
  have z: "(0 :: nat) < length [7 :: real, 8]" by simp
  from v z have b: "- 2 \<le> weight' ! 0 \<and> weight' ! 0 \<le> 2"
    by blast
  show ?thesis
    apply (rule exI [of _ weight'])
    apply (intro conjI)
        apply (rule w)
       apply (rule l)
      apply (rule z)
     apply (rule b [THEN conjunct1])
    apply (rule b [THEN conjunct2])
    done
qed

text \<open>
  The claim as the spec words it fails: the bounds \<open>a\<close> and \<open>b\<close> are absolute values,
  not multiples of the standard deviation.  For the unit draw \<open>example_draw\<close> the weight
  is \<open>0.04 * sqrt 2\<close>, outside \<open>[-0.04, 0.04]\<close>.
\<close>

theorem init_weights_beyond_two_std:
  "init_weights example_rng (LinearModule [0] None)
     = ([], Inr (LinearModule [4 / 100 * sqrt 2] None))
   \<and> 4 / 100 < 4 / 100 * sqrt 2
   \<and> 0 \<le> example_draw \<and> example_draw < 1"
proof -
  have "(1 :: real) < sqrt 2" by simp
  then have gt: "(4 :: real) / 100 < 4 / 100 * sqrt 2" by simp
  have "sqrt 2 < 50" by (rule real_less_lsqrt) simp_all
  then have le: "4 / 100 * sqrt 2 \<le> 2" by simp
  have ge: "- 2 \<le> 4 / 100 * sqrt 2"
  proof -
    have "0 \<le> 4 / 100 * sqrt 2" by simp
    then show ?thesis by linarith
  qed
  have c: "clamp (- 2) 2 (4 / 100 * sqrt 2) = 4 / 100 * sqrt 2"
    using ge le by (rule clamp_inside)
  have "init_weights example_rng (LinearModule [0] None)
     = ([], Inr (LinearModule [4 / 100 * sqrt 2] None))"
  proof -
    have e: "erfinv ((2 * norm_cdf (- 100) - 1)
                + ((2 * norm_cdf 100 - 1) - (2 * norm_cdf (- 100) - 1)) * example_rng i) = 2"
      for i
      unfolding example_rng_def example_draw_sample by (rule erfinv_erf)
    have v: "2 * (2 / 100 * sqrt 2) + 0 = 4 / 100 * sqrt 2" by simp
    show ?thesis
      unfolding init_weights_Linear e v c by simp
  qed
  with gt example_draw_range show ?thesis by blast
qed

end
